theory Spec2Isabelle
  imports Complex_Main
begin

section \<open>Values and exceptions\<close>

text \<open>
  Coordinates are Python floats in the source.  They are modelled by exact rationals:
  every comparison and every arithmetic step of the source is kept, rounding is not
  modelled.  Strings are lists of 8-bit characters.
\<close>

type_synonym point = "rat \<times> rat"

type_synonym ring = "point list"

text \<open>
  The exceptions that can leave the converter.  \<open>ConvertError\<close> is the class of the
  source, carrying its message; the others are the built-in exceptions that the source
  lets escape, and \<open>LibraryError\<close> is an exception raised inside a geometry or mesh
  library call that the source does not catch.
\<close>

datatype exn =
    ConvertError string
  | ValueError
  | IndexError
  | AttributeError
  | LibraryError string

definition NumbersBeforeCommand :: exn where
  "NumbersBeforeCommand = ConvertError ''SVG path has numbers before any command.''"

definition UnsupportedPathCommand :: exn where
  "UnsupportedPathCommand =
     ConvertError ''Unsupported SVG path command. Please convert curves to line segments (no C/Q/A).''"

section \<open>Character classes and float()\<close>

definition is_digit :: "char \<Rightarrow> bool" where
  "is_digit c \<longleftrightarrow> c \<in> set ''0123456789''"

text \<open>Python's \<open>str.isspace\<close> and the regular expression class \<open>\s\<close> on 8-bit characters.\<close>

definition is_space :: "char \<Rightarrow> bool" where
  "is_space c \<longleftrightarrow> (of_char c :: nat) \<in> {9, 10, 11, 12, 13, 28, 29, 30, 31, 32, 133, 160}"

definition is_cmd_char :: "char \<Rightarrow> bool" where
  "is_cmd_char c \<longleftrightarrow> c \<in> set ''MmLlHhVvZz''"

definition digit_val :: "char \<Rightarrow> nat" where
  "digit_val c = of_char c - 48"

definition digits_val :: "string \<Rightarrow> nat" where
  "digits_val ds = foldl (\<lambda>a c. 10 * a + digit_val c) 0 ds"

definition strip :: "string \<Rightarrow> string" where
  "strip s = rev (dropWhile is_space (rev (dropWhile is_space s)))"

text \<open>
  \<open>float(s)\<close> on a decimal literal: surrounding white space, a sign, digits with an
  optional point, an optional exponent.  \<open>None\<close> is the ValueError of the source.
  The spellings of infinity and not-a-number and digit-group underscores, which Python
  also accepts, have no rational value and are outside the model.
\<close>

definition split_sign :: "string \<Rightarrow> bool \<times> string" where
  "split_sign s = (case s of
       [] \<Rightarrow> (False, [])
     | c # r \<Rightarrow> if c = CHR ''-'' then (True, r) else if c = CHR ''+'' then (False, r) else (False, s))"

definition parse_exponent :: "string \<Rightarrow> int option" where
  "parse_exponent s = (case s of
       [] \<Rightarrow> Some 0
     | e # r \<Rightarrow>
         if e = CHR ''e'' \<or> e = CHR ''E'' then
           (let (neg, ds) = split_sign r in
            if ds \<noteq> [] \<and> list_all is_digit ds
            then Some (if neg then - int (digits_val ds) else int (digits_val ds))
            else None)
         else None)"

definition scale10 :: "rat \<Rightarrow> int \<Rightarrow> rat" where
  "scale10 v e = (if 0 \<le> e then v * 10 ^ nat e else v / 10 ^ nat (- e))"

definition float_of :: "string \<Rightarrow> rat option" where
  "float_of s =
     (let (neg, u) = split_sign (strip s);
          ip = takeWhile is_digit u;
          r = dropWhile is_digit u;
          fp = (case r of [] \<Rightarrow> [] | c # r' \<Rightarrow> if c = CHR ''.'' then takeWhile is_digit r' else []);
          r2 = (case r of [] \<Rightarrow> [] | c # r' \<Rightarrow> if c = CHR ''.'' then dropWhile is_digit r' else r)
      in if ip = [] \<and> fp = [] then None
         else case parse_exponent r2 of
                None \<Rightarrow> None
              | Some e \<Rightarrow>
                  (let m = scale10 (of_nat (digits_val (ip @ fp)) / 10 ^ length fp) e
                   in Some (if neg then - m else m)))"

section \<open>The path interpreter\<close>

subsection \<open>Tokens\<close>

text \<open>
  The tokens are the matches of
  \<^verbatim>\<open>[MmLlHhVvZz]|-?\d*\.?\d+(?:[eE][-+]?\d+)?\<close>
  found by \<open>re.findall\<close>, scanning from the left; a character at which neither
  alternative matches is passed over.  \<open>match_number\<close> is the second alternative at the
  head of a string, with the greedy quantifiers and their backtracking worked out: the
  digits before the point are given back only when no digit follows the point.
\<close>

definition match_exponent :: "string \<Rightarrow> string" where
  "match_exponent s = (case s of
       [] \<Rightarrow> []
     | e # r \<Rightarrow>
         if e = CHR ''e'' \<or> e = CHR ''E'' then
           (let sg = (case r of [] \<Rightarrow> [] | c # _ \<Rightarrow> if c = CHR ''-'' \<or> c = CHR ''+'' then [c] else []);
                ds = takeWhile is_digit (drop (length sg) r)
            in if ds = [] then [] else e # sg @ ds)
         else [])"

definition match_unsigned :: "string \<Rightarrow> string option" where
  "match_unsigned s =
     (let ds = takeWhile is_digit s; r = dropWhile is_digit s in
      case r of
        [] \<Rightarrow> if ds = [] then None else Some ds
      | c # r' \<Rightarrow>
          if c = CHR ''.'' \<and> takeWhile is_digit r' \<noteq> []
          then Some (ds @ c # takeWhile is_digit r' @ match_exponent (dropWhile is_digit r'))
          else if ds = [] then None
          else Some (ds @ match_exponent r))"

definition match_number :: "string \<Rightarrow> string option" where
  "match_number s = (case s of
       [] \<Rightarrow> None
     | c # r \<Rightarrow> if c = CHR ''-'' then map_option ((#) c) (match_unsigned r) else match_unsigned s)"

text \<open>The first argument counts the characters of the last match still to be passed.\<close>

fun findall_tokens :: "nat \<Rightarrow> string \<Rightarrow> string list" where
  "findall_tokens k [] = []"
| "findall_tokens (Suc k) (c # cs) = findall_tokens k cs"
| "findall_tokens 0 (c # cs) =
     (if is_cmd_char c then [c] # findall_tokens 0 cs
      else case match_number (c # cs) of
             Some t \<Rightarrow> t # findall_tokens (length t - 1) cs
           | None \<Rightarrow> findall_tokens 0 cs)"

text \<open>\<open>re.match(r"^[MmLlHhVvZz]$", t)\<close> on a token.\<close>

definition cmd_of_token :: "string \<Rightarrow> char option" where
  "cmd_of_token t = (case t of [c] \<Rightarrow> if is_cmd_char c then Some c else None | _ \<Rightarrow> None)"

subsection \<open>The loop\<close>

text \<open>
  The state of the \<open>while\<close> loop of \<open>_path_to_linestring\<close>: the tokens from index
  \<open>i\<close> on, the current command, the cursor, the start point of the subpath and the
  points so far.
\<close>

record pstate =
  p_toks :: "string list"
  p_cmd :: "char option"
  p_x :: rat
  p_y :: rat
  p_start :: "point option"
  p_pts :: "point list"

definition read_num :: "string list \<Rightarrow> exn + (rat \<times> string list)" where
  "read_num ts = (case ts of
       [] \<Rightarrow> Inl IndexError
     | t # r \<Rightarrow> (case float_of t of None \<Rightarrow> Inl ValueError | Some v \<Rightarrow> Inr (v, r)))"

definition append_start :: "point option \<Rightarrow> point list \<Rightarrow> point list" where
  "append_start st ps = (case st of None \<Rightarrow> ps | Some p \<Rightarrow> ps @ [p])"

text \<open>
  The \<open>if\<close>/\<open>elif\<close> chain on the current command, in the order of the source.  The
  result is the outcome of the whole call (an exception) or the state after the
  iteration.  In the close-path branch no token is consumed.
\<close>

definition dispatch :: "char \<Rightarrow> pstate \<Rightarrow> (exn + point list) + pstate" where
  "dispatch c s =
     (if c \<in> set ''Mm'' then
        (case read_num (p_toks s) of
           Inl e \<Rightarrow> Inl (Inl e)
         | Inr (dx, r1) \<Rightarrow>
             (case read_num r1 of
                Inl e \<Rightarrow> Inl (Inl e)
              | Inr (dy, r2) \<Rightarrow>
                  (let nx = (if c = CHR ''m'' then p_x s + dx else dx);
                       ny = (if c = CHR ''m'' then p_y s + dy else dy)
                   in Inr (s\<lparr>p_toks := r2,
                              p_cmd := Some (if c = CHR ''m'' then CHR ''l'' else CHR ''L''),
                              p_x := nx, p_y := ny,
                              p_start := Some (nx, ny),
                              p_pts := p_pts s @ [(nx, ny)]\<rparr>))))
      else if c \<in> set ''Ll'' then
        (case read_num (p_toks s) of
           Inl e \<Rightarrow> Inl (Inl e)
         | Inr (dx, r1) \<Rightarrow>
             (case read_num r1 of
                Inl e \<Rightarrow> Inl (Inl e)
              | Inr (dy, r2) \<Rightarrow>
                  (let nx = (if c = CHR ''l'' then p_x s + dx else dx);
                       ny = (if c = CHR ''l'' then p_y s + dy else dy)
                   in Inr (s\<lparr>p_toks := r2, p_x := nx, p_y := ny,
                              p_pts := p_pts s @ [(nx, ny)]\<rparr>))))
      else if c \<in> set ''Hh'' then
        (case read_num (p_toks s) of
           Inl e \<Rightarrow> Inl (Inl e)
         | Inr (dx, r1) \<Rightarrow>
             (let nx = (if c = CHR ''h'' then p_x s + dx else dx)
              in Inr (s\<lparr>p_toks := r1, p_x := nx, p_pts := p_pts s @ [(nx, p_y s)]\<rparr>)))
      else if c \<in> set ''Vv'' then
        (case read_num (p_toks s) of
           Inl e \<Rightarrow> Inl (Inl e)
         | Inr (dy, r1) \<Rightarrow>
             (let ny = (if c = CHR ''v'' then p_y s + dy else dy)
              in Inr (s\<lparr>p_toks := r1, p_y := ny, p_pts := p_pts s @ [(p_x s, ny)]\<rparr>)))
      else if c \<in> set ''Zz'' then
        Inr (s\<lparr>p_pts := append_start (p_start s) (p_pts s)\<rparr>)
      else Inl (Inl UnsupportedPathCommand))"

text \<open>One iteration of the loop; \<open>Inl\<close> is the end of the call.\<close>

definition path_step :: "pstate \<Rightarrow> (exn + point list) + pstate" where
  "path_step s = (case p_toks s of
       [] \<Rightarrow> Inl (Inr (p_pts s))
     | t # rest \<Rightarrow>
         (case cmd_of_token t of
            Some c \<Rightarrow>
              if c \<in> set ''Zz''
              then Inr (s\<lparr>p_toks := rest, p_cmd := Some c,
                          p_pts := append_start (p_start s) (p_pts s)\<rparr>)
              else dispatch c (s\<lparr>p_toks := rest, p_cmd := Some c\<rparr>)
          | None \<Rightarrow>
              (case p_cmd s of
                 None \<Rightarrow> Inl (Inl NumbersBeforeCommand)
               | Some c \<Rightarrow> dispatch c s)))"

text \<open>
  The loop itself.  It need not end (a number after a close-path command is never
  consumed), so the result is an option: \<open>None\<close> is a call that does not return.
\<close>

partial_function (option) path_loop :: "pstate \<Rightarrow> (exn + point list) option" where
  "path_loop s = (case path_step s of Inl r \<Rightarrow> Some r | Inr s' \<Rightarrow> path_loop s')"

declare path_loop.simps [code]

definition path_init :: "string list \<Rightarrow> pstate" where
  "path_init ts = \<lparr>p_toks = ts, p_cmd = None, p_x = 0, p_y = 0, p_start = None, p_pts = []\<rparr>"

text \<open>
  \<open>_path_to_linestring\<close> returns the points of the LineString, or \<open>None\<close> of Python
  (the inner option) when the path is dropped.
\<close>

definition path_to_linestring :: "string \<Rightarrow> (exn + point list option) option" where
  "path_to_linestring d =
     (if d = [] then Some (Inr None)
      else let tokens = findall_tokens 0 d in
        if tokens = [] then Some (Inr None)
        else case path_loop (path_init tokens) of
               None \<Rightarrow> None
             | Some (Inl e) \<Rightarrow> Some (Inl e)
             | Some (Inr ps) \<Rightarrow> Some (Inr (if length ps < 3 then None else Some ps)))"

section \<open>Planar geometry\<close>

text \<open>
  The geometry values of the planar library, as far as the converter tells them apart
  (by \<open>isinstance\<close>).  A ring holds its coordinates closed, the first repeated at the
  end, as the library stores it; a polygon without coordinates is the empty polygon.
\<close>

datatype polygon = Poly (exterior: ring) (interiors: "ring list")

datatype geom =
    Point point
  | LineString "point list"
  | Polygon polygon
  | MultiPoint "point list"
  | MultiLineString "point list list"
  | MultiPolygon "polygon list"
  | GeometryCollection "geom list"

text \<open>Twice the signed area of a ring (the shoelace sum), and the area the library reports.\<close>

fun shoelace :: "ring \<Rightarrow> rat" where
  "shoelace (p # q # r) = (fst p * snd q - fst q * snd p) + shoelace (q # r)"
| "shoelace _ = 0"

definition ring_area :: "ring \<Rightarrow> rat" where
  "ring_area r = \<bar>shoelace r\<bar> / 2"

definition poly_area :: "polygon \<Rightarrow> rat" where
  "poly_area p = ring_area (exterior p) - sum_list (map ring_area (interiors p))"

definition poly_is_empty :: "polygon \<Rightarrow> bool" where
  "poly_is_empty p \<longleftrightarrow> exterior p = []"

fun is_empty :: "geom \<Rightarrow> bool" where
  "is_empty (Point p) = False"
| "is_empty (LineString ps) = (ps = [])"
| "is_empty (Polygon p) = poly_is_empty p"
| "is_empty (MultiPoint ps) = (ps = [])"
| "is_empty (MultiLineString ls) = list_all (\<lambda>l. l = []) ls"
| "is_empty (MultiPolygon ps) = list_all poly_is_empty ps"
| "is_empty (GeometryCollection gs) = list_all is_empty gs"

text \<open>
  The coordinates that span the bounding box (for a polygon, those of its shell), and all
  coordinates mapped by a transformation.
\<close>

fun envelope_coords :: "geom \<Rightarrow> point list" where
  "envelope_coords (Point p) = [p]"
| "envelope_coords (LineString ps) = ps"
| "envelope_coords (Polygon p) = exterior p"
| "envelope_coords (MultiPoint ps) = ps"
| "envelope_coords (MultiLineString ls) = concat ls"
| "envelope_coords (MultiPolygon ps) = concat (map exterior ps)"
| "envelope_coords (GeometryCollection gs) = concat (map envelope_coords gs)"

definition map_poly :: "(point \<Rightarrow> point) \<Rightarrow> polygon \<Rightarrow> polygon" where
  "map_poly f p = Poly (map f (exterior p)) (map (map f) (interiors p))"

fun map_coords :: "(point \<Rightarrow> point) \<Rightarrow> geom \<Rightarrow> geom" where
  "map_coords f (Point p) = Point (f p)"
| "map_coords f (LineString ps) = LineString (map f ps)"
| "map_coords f (Polygon p) = Polygon (map_poly f p)"
| "map_coords f (MultiPoint ps) = MultiPoint (map f ps)"
| "map_coords f (MultiLineString ls) = MultiLineString (map (map f) ls)"
| "map_coords f (MultiPolygon ps) = MultiPolygon (map (map_poly f) ps)"
| "map_coords f (GeometryCollection gs) = GeometryCollection (map (map_coords f) gs)"

text \<open>
  \<open>geom.bounds\<close> is \<open>(minx, miny, maxx, maxy)\<close>.  For an empty geometry the library
  gives four not-a-number values, here \<open>None\<close>.
\<close>

definition bounds :: "geom \<Rightarrow> (rat \<times> rat \<times> rat \<times> rat) option" where
  "bounds g =
     (let cs = envelope_coords g in
      if cs = [] then None
      else Some (Min (set (map fst cs)), Min (set (map snd cs)),
                 Max (set (map fst cs)), Max (set (map snd cs))))"

text \<open>\<open>shapely.affinity.scale\<close> about a given origin and \<open>shapely.affinity.translate\<close>.\<close>

definition shp_scale :: "geom \<Rightarrow> rat \<Rightarrow> rat \<Rightarrow> point \<Rightarrow> geom" where
  "shp_scale g xfact yfact origin =
     map_coords (\<lambda>(x, y). (fst origin + xfact * (x - fst origin),
                             snd origin + yfact * (y - snd origin))) g"

definition translate :: "geom \<Rightarrow> rat \<Rightarrow> rat \<Rightarrow> geom" where
  "translate g xoff yoff = map_coords (\<lambda>(x, y). (x + xoff, y + yoff)) g"

section \<open>The scaler\<close>

definition DegenerateBounds :: exn where
  "DegenerateBounds = ConvertError ''SVG has invalid geometry bounds (zero area).''"

definition ScaleFactorError :: exn where
  "ScaleFactorError = ConvertError ''Could not compute scale factor from SVG bounds.''"

definition scaled_down_warning :: string where
  "scaled_down_warning =
     ''The SVG was scaled down significantly; very fine details may be lost in printing.''"

text \<open>
  \<open>_normalize_to_size\<close>.  The list of warnings is threaded through: the result carries
  the list after the call.  With the not-a-number bounds of an empty geometry every
  comparison of the source is false and the affine maps return the empty geometry.
\<close>

definition normalize_to_size :: "geom \<Rightarrow> rat \<Rightarrow> string list \<Rightarrow> exn + (geom \<times> string list)" where
  "normalize_to_size geom target_size_mm warnings =
     (case bounds geom of
        None \<Rightarrow> Inr (geom, warnings)
      | Some (minx, miny, maxx, maxy) \<Rightarrow>
          (let w = maxx - minx; h = maxy - miny in
           if w \<le> 0 \<or> h \<le> 0 then Inl DegenerateBounds
           else
             (let scale_factor = target_size_mm / max w h in
              if scale_factor \<le> 0 then Inl ScaleFactorError
              else
                (let geom_s = shp_scale geom scale_factor scale_factor (0, 0);
                     warnings' = (if scale_factor < 1 / 2 then warnings @ [scaled_down_warning]
                                  else warnings)
                 in case bounds geom_s of
                      None \<Rightarrow> Inr (geom_s, warnings')
                    | Some (minx2, miny2, maxx2, maxy2) \<Rightarrow>
                        (let cx = (minx2 + maxx2) / 2; cy = (miny2 + maxy2) / 2
                         in Inr (translate geom_s (- cx) (- cy), warnings'))))))"

section \<open>Removal of small holes\<close>

definition digit_char :: "nat \<Rightarrow> char" where
  "digit_char n = char_of (48 + n)"

fun str_nat :: "nat \<Rightarrow> string" where
  "str_nat n = (if n < 10 then [digit_char n] else str_nat (n div 10) @ [digit_char (n mod 10)])"

definition removed_holes_warning :: "nat \<Rightarrow> string" where
  "removed_holes_warning n = ''Removed '' @ str_nat n @ '' small hole(s) to improve printability.''"

text \<open>The loop over \<open>poly.interiors\<close>, with its two accumulators.\<close>

fun holes_loop :: "ring list \<Rightarrow> rat \<Rightarrow> ring list \<Rightarrow> nat \<Rightarrow> ring list \<times> nat" where
  "holes_loop [] t keep removed = (keep, removed)"
| "holes_loop (rg # rs) t keep removed =
     (if ring_area rg \<ge> t then holes_loop rs t (keep @ [rg]) removed
      else holes_loop rs t keep (removed + 1))"

definition remove_small_holes :: "polygon \<Rightarrow> rat \<Rightarrow> string list \<Rightarrow> polygon \<times> string list" where
  "remove_small_holes poly min_hole_area_mm2 warnings =
     (if interiors poly = [] then (poly, warnings)
      else
        (let (keep, removed) = holes_loop (interiors poly) min_hole_area_mm2 [] 0
         in (Poly (exterior poly) keep,
             if removed \<noteq> 0 then warnings @ [removed_holes_warning removed] else warnings)))"

text \<open>The threshold that \<open>_clean_geometry\<close> passes, \<open>0.35 * 0.35\<close>.\<close>

definition min_hole_area :: rat where
  "min_hole_area = 35 / 100 * (35 / 100)"

section \<open>The drawing\<close>

text \<open>
  The XML parser is the library's; the model starts from the element tree it returns.
  An element has its tag (with the namespace in braces, as the library writes it), its
  attributes and its children.  Comments and processing instructions are outside the
  model.
\<close>

datatype element = Element (tag: string) (attrib: "(string \<times> string) list") (children: "element list")

text \<open>\<open>root.iter()\<close>: the element and its descendants in document order.\<close>

fun iter :: "element \<Rightarrow> element list" where
  "iter (Element t a cs) = Element t a cs # concat (map iter cs)"

text \<open>\<open>etree.QName(el).localname\<close> and \<open>str.lower\<close> on 8-bit characters.\<close>

definition localname :: "string \<Rightarrow> string" where
  "localname t = (case t of
       [] \<Rightarrow> []
     | c # r \<Rightarrow> if c = CHR ''{'' then tl (dropWhile (\<lambda>x. x \<noteq> CHR ''}'') r) else t)"

definition lower_char :: "char \<Rightarrow> char" where
  "lower_char c =
     (let n = (of_char c :: nat) in
      if (65 \<le> n \<and> n \<le> 90) \<or> (192 \<le> n \<and> n \<le> 222 \<and> n \<noteq> 215) then char_of (n + 32) else c)"

definition lower :: "string \<Rightarrow> string" where
  "lower s = map lower_char s"

definition local_tag :: "element \<Rightarrow> string" where
  "local_tag el = lower (localname (tag el))"

definition startswith :: "string \<Rightarrow> string \<Rightarrow> bool" where
  "startswith s p \<longleftrightarrow> take (length p) s = p"

text \<open>\<open>sub in s\<close> on strings.\<close>

fun contains :: "string \<Rightarrow> string \<Rightarrow> bool" where
  "contains [] sub = (sub = [])"
| "contains (c # cs) sub = (startswith (c # cs) sub \<or> contains cs sub)"

subsection \<open>Raster references\<close>

text \<open>
  \<open>re.search(r"\.(png|jpg|jpeg|gif|bmp|webp)(\?|#|$)", href, re.I)\<close>: somewhere in the
  text a dot, one of the extensions in either case, and then a question mark, a hash or
  the end of the text (which \<open>$\<close> also sees before a final newline).
\<close>

definition raster_exts :: "string list" where
  "raster_exts = [''png'', ''jpg'', ''jpeg'', ''gif'', ''bmp'', ''webp'']"

definition ext_end :: "string \<Rightarrow> bool" where
  "ext_end r = (case r of
       [] \<Rightarrow> True
     | c # r' \<Rightarrow> c = CHR ''?'' \<or> c = CHR ''#'' \<or> (c = CHR 0x0A \<and> r' = []))"

definition match_ext_here :: "string \<Rightarrow> bool" where
  "match_ext_here s = (case s of
       [] \<Rightarrow> False
     | c # r \<Rightarrow> c = CHR ''.'' \<and>
         list_ex (\<lambda>e. length e \<le> length r \<and> lower (take (length e) r) = e
                       \<and> ext_end (drop (length e) r)) raster_exts)"

fun re_search_raster :: "string \<Rightarrow> bool" where
  "re_search_raster [] = False"
| "re_search_raster (c # cs) = (match_ext_here (c # cs) \<or> re_search_raster cs)"

definition XLINK_NS :: string where
  "XLINK_NS = ''http://www.w3.org/1999/xlink''"

definition href_attrs :: "string list" where
  "href_attrs = [''href'', ''{'' @ XLINK_NS @ ''}href'']"

text \<open>The two tests the source makes on the value of an href attribute.\<close>

definition href_is_raster :: "string \<Rightarrow> bool" where
  "href_is_raster href \<longleftrightarrow>
     (startswith href ''data:'' \<and> \<not> contains href ''image/svg+xml'') \<or> re_search_raster href"

definition element_is_raster :: "element \<Rightarrow> bool" where
  "element_is_raster el \<longleftrightarrow>
     local_tag el = ''image'' \<or>
     list_ex (\<lambda>a. case map_of (attrib el) a of None \<Rightarrow> False | Some href \<Rightarrow> href_is_raster href)
       href_attrs"

definition has_raster_images :: "element \<Rightarrow> bool" where
  "has_raster_images svg_root \<longleftrightarrow> list_ex element_is_raster (iter svg_root)"

subsection \<open>Point lists\<close>

text \<open>
  \<open>_parse_points\<close>: the text is cut at runs of white space and commas, every piece is
  read by \<open>float\<close>, and the numbers are paired; a last number without partner is
  dropped.
\<close>

fun split_pieces :: "string \<Rightarrow> string \<Rightarrow> string list" where
  "split_pieces cur [] = (if cur = [] then [] else [cur])"
| "split_pieces cur (c # cs) =
     (if is_space c \<or> c = CHR '','' then (if cur = [] then [] else [cur]) @ split_pieces [] cs
      else split_pieces (cur @ [c]) cs)"

fun floats_of :: "string list \<Rightarrow> exn + rat list" where
  "floats_of [] = Inr []"
| "floats_of (x # xs) =
     (case float_of x of
        None \<Rightarrow> Inl ValueError
      | Some v \<Rightarrow> (case floats_of xs of Inl e \<Rightarrow> Inl e | Inr vs \<Rightarrow> Inr (v # vs)))"

fun pairs_of :: "rat list \<Rightarrow> point list" where
  "pairs_of (a # b # r) = (a, b) # pairs_of r"
| "pairs_of _ = []"

definition parse_points :: "string \<Rightarrow> exn + point list" where
  "parse_points points =
     (if points = [] then Inr []
      else case floats_of (split_pieces [] (strip points)) of
             Inl e \<Rightarrow> Inl e
           | Inr nums \<Rightarrow> Inr (pairs_of nums))"

section \<open>The geometry and mesh libraries\<close>

text \<open>
  The operations of the planar-geometry library and of the mesh library that the
  converter calls are parameters of the model: a record of functions over the geometry
  values above and over a type \<open>'m\<close> of meshes.  An operation that the source calls
  inside a \<open>try\<close> block somewhere returns a sum, \<open>Inl\<close> being the text of the exception
  it raises; the other operations are taken to return.  The numbers passed to
  \<open>k_buffer\<close> after the distance are the segments per quarter circle, the cap style
  and the join style, in the library's numbering (round 1, flat 2, square 3 for caps;
  round 1, mitre 2, bevel 3 for joins).
\<close>

definition CAP_round :: nat where "CAP_round = 1"
definition CAP_flat :: nat where "CAP_flat = 2"
definition JOIN_round :: nat where "JOIN_round = 1"
definition JOIN_mitre :: nat where "JOIN_mitre = 2"

type_synonym vec3 = "rat \<times> rat \<times> rat"

record 'm kernel =
  k_buffer :: "geom \<Rightarrow> rat \<Rightarrow> nat \<Rightarrow> nat \<Rightarrow> nat \<Rightarrow> string + geom"
  k_unary_union :: "geom list \<Rightarrow> geom"
  k_make_valid :: "geom \<Rightarrow> string + geom"
  k_box :: "vec3 \<Rightarrow> 'm"
  k_extrude_polygon :: "geom \<Rightarrow> rat \<Rightarrow> string + 'm"
  k_apply_translation :: "'m \<Rightarrow> vec3 \<Rightarrow> 'm"
  k_concatenate :: "'m list \<Rightarrow> 'm"
  k_scad_exists :: bool
  k_boolean_union :: "'m list \<Rightarrow> 'm"
  k_boolean_difference :: "'m list \<Rightarrow> 'm"
  k_mesh_is_empty :: "'m \<Rightarrow> bool"
  k_process :: "'m \<Rightarrow> 'm"
  k_mesh_bounds :: "'m \<Rightarrow> vec3 \<times> vec3"

text \<open>Sequencing of calls that may raise, and an uncaught library exception.\<close>

definition bind_exn :: "exn + 'a \<Rightarrow> ('a \<Rightarrow> exn + 'b) \<Rightarrow> exn + 'b" where
  "bind_exn m f = (case m of Inl e \<Rightarrow> Inl e | Inr v \<Rightarrow> f v)"

definition uncaught :: "string + 'a \<Rightarrow> exn + 'a" where
  "uncaught m = (case m of Inl e \<Rightarrow> Inl (LibraryError e) | Inr v \<Rightarrow> Inr v)"

section \<open>The shape extractor\<close>

definition InvalidInput :: "string \<Rightarrow> exn" where
  "InvalidInput e = ConvertError (''Invalid SVG file: '' @ e)"

definition UnsupportedContent :: exn where
  "UnsupportedContent = ConvertError
     ''The SVG contains embedded raster images. Please upload a vector-only SVG (no <image> tags).''"

definition NoShapes :: exn where
  "NoShapes = ConvertError
     ''No vector paths/shapes found. Please export SVG with paths (not text/raster).''"

definition ALLOWED_SHAPES :: "string list" where
  "ALLOWED_SHAPES = [''path'', ''rect'', ''circle'', ''ellipse'', ''polygon'', ''polyline'']"

text \<open>\<open>float(el.attrib.get(name, 0))\<close>.\<close>

definition float_attr :: "element \<Rightarrow> string \<Rightarrow> exn + rat" where
  "float_attr el name = (case map_of (attrib el) name of
       None \<Rightarrow> Inr 0
     | Some v \<Rightarrow> (case float_of v of None \<Rightarrow> Inl ValueError | Some x \<Rightarrow> Inr x))"

definition str_attr :: "element \<Rightarrow> string \<Rightarrow> string" where
  "str_attr el name = (case map_of (attrib el) name of None \<Rightarrow> [] | Some v \<Rightarrow> v)"

text \<open>
  \<open>Polygon(pts)\<close>: the ring is closed if it is not, and a ring of fewer than four
  coordinates is refused by the library with a ValueError.
\<close>

definition mk_polygon :: "point list \<Rightarrow> exn + geom" where
  "mk_polygon ps =
     (let r = (case ps of [] \<Rightarrow> [] | p # _ \<Rightarrow> if last ps = p then ps else ps @ [p])
      in if length r < 4 then Inl ValueError else Inr (Polygon (Poly r [])))"

text \<open>
  The body of the loop of \<open>_extract_geometry\<close> for one element: the geometry it adds,
  if any.  The outer option is a call that does not return (the path loop).
\<close>

definition shape_of :: "'m kernel \<Rightarrow> element \<Rightarrow> (exn + geom option) option" where
  "shape_of K el =
     (let tg = local_tag el in
      if tg \<notin> set ALLOWED_SHAPES then Some (Inr None)
      else if tg = ''path'' then
        (case path_to_linestring (str_attr el ''d'') of
           None \<Rightarrow> None
         | Some (Inl e) \<Rightarrow> Some (Inl e)
         | Some (Inr None) \<Rightarrow> Some (Inr None)
         | Some (Inr (Some ps)) \<Rightarrow> Some (Inr (Some (LineString ps))))
      else if tg = ''rect'' then
        Some (bind_exn (float_attr el ''x'') (\<lambda>x.
              bind_exn (float_attr el ''y'') (\<lambda>y.
              bind_exn (float_attr el ''width'') (\<lambda>w.
              bind_exn (float_attr el ''height'') (\<lambda>h.
                if w > 0 \<and> h > 0
                then bind_exn (mk_polygon [(x, y), (x + w, y), (x + w, y + h), (x, y + h)])
                       (\<lambda>g. Inr (Some g))
                else Inr None)))))
      else if tg = ''circle'' then
        Some (bind_exn (float_attr el ''cx'') (\<lambda>cx.
              bind_exn (float_attr el ''cy'') (\<lambda>cy.
              bind_exn (float_attr el ''r'') (\<lambda>r.
                if r > 0
                then bind_exn (uncaught (k_buffer K (Point (cx, cy)) r 64 CAP_round JOIN_round))
                       (\<lambda>g. Inr (Some g))
                else Inr None))))
      else if tg = ''ellipse'' then
        Some (bind_exn (float_attr el ''cx'') (\<lambda>cx.
              bind_exn (float_attr el ''cy'') (\<lambda>cy.
              bind_exn (float_attr el ''rx'') (\<lambda>rx.
              bind_exn (float_attr el ''ry'') (\<lambda>ry.
                if rx > 0 \<and> ry > 0
                then bind_exn (uncaught (k_buffer K (Point (cx, cy)) 1 64 CAP_round JOIN_round))
                       (\<lambda>g. Inr (Some (shp_scale g rx ry (cx, cy))))
                else Inr None)))))
      else
        Some (bind_exn (parse_points (str_attr el ''points'')) (\<lambda>ps.
                if length ps \<ge> 3 then
                  (if tg = ''polyline'' then Inr (Some (LineString ps))
                   else bind_exn (mk_polygon ps) (\<lambda>g. Inr (Some g)))
                else Inr None)))"

fun extract_loop :: "'m kernel \<Rightarrow> element list \<Rightarrow> geom list \<Rightarrow> (exn + geom list) option" where
  "extract_loop K [] geoms = Some (Inr geoms)"
| "extract_loop K (el # els) geoms =
     (case shape_of K el of
        None \<Rightarrow> None
      | Some (Inl e) \<Rightarrow> Some (Inl e)
      | Some (Inr None) \<Rightarrow> extract_loop K els geoms
      | Some (Inr (Some g)) \<Rightarrow> extract_loop K els (geoms @ [g]))"

text \<open>
  \<open>_extract_geometry\<close>, from the outcome of \<open>etree.fromstring\<close>: \<open>Inl\<close> is the text
  of the parser's exception, \<open>Inr\<close> the root element.
\<close>

definition extract_geometry :: "'m kernel \<Rightarrow> string + element \<Rightarrow> (exn + geom list) option" where
  "extract_geometry K parsed =
     (case parsed of
        Inl e \<Rightarrow> Some (Inl (InvalidInput e))
      | Inr svg_root \<Rightarrow>
          if has_raster_images svg_root then Some (Inl UnsupportedContent)
          else (case extract_loop K (iter svg_root) [] of
                  None \<Rightarrow> None
                | Some (Inl e) \<Rightarrow> Some (Inl e)
                | Some (Inr geoms) \<Rightarrow> if geoms = [] then Some (Inl NoShapes) else Some (Inr geoms)))"

section \<open>The normalizer\<close>

definition EmptyAfterCleanup :: exn where
  "EmptyAfterCleanup = ConvertError
     ''Geometry is empty after union/cleanup. Ensure your SVG has closed shapes.''"

definition polygons_of :: "geom list \<Rightarrow> polygon list" where
  "polygons_of gs = concat (map (\<lambda>g. case g of Polygon p \<Rightarrow> [p] | _ \<Rightarrow> []) gs)"

text \<open>The step ``ensure MultiPolygon'' of \<open>_clean_geometry\<close>.\<close>

definition as_multipolygon :: "geom \<Rightarrow> geom" where
  "as_multipolygon g = (case g of
       Polygon p \<Rightarrow> MultiPolygon [p]
     | GeometryCollection gs \<Rightarrow> MultiPolygon (polygons_of gs)
     | _ \<Rightarrow> g)"

text \<open>The loop over \<open>geom.geoms\<close>, threading the warnings.\<close>

fun holes_all :: "polygon list \<Rightarrow> string list \<Rightarrow> polygon list \<times> string list" where
  "holes_all [] ws = ([], ws)"
| "holes_all (p # ps) ws =
     (let (p2, ws2) = remove_small_holes p min_hole_area ws;
          (ps2, ws3) = holes_all ps ws2
      in (p2 # ps2, ws3))"

text \<open>
  \<open>_clean_geometry\<close>.  A non-empty union that is neither a polygon, a multipolygon nor
  a collection has no polygons to iterate over: the source ends in an AttributeError.
\<close>

definition clean_geometry :: "'m kernel \<Rightarrow> geom \<Rightarrow> string list \<Rightarrow> exn + (geom \<times> string list)" where
  "clean_geometry K geom ws =
     (let g1 = (case k_make_valid K geom of Inl _ \<Rightarrow> geom | Inr v \<Rightarrow> v);
          g2 = as_multipolygon (k_unary_union K [g1])
      in if is_empty g2 then Inl EmptyAfterCleanup
         else case g2 of
                MultiPolygon ps \<Rightarrow>
                  (let (ps2, ws2) = holes_all ps ws in Inr (MultiPolygon ps2, ws2))
              | _ \<Rightarrow> Inl AttributeError)"

section \<open>The minimum-width enforcer\<close>

definition EmptyAfterBuffer :: exn where
  "EmptyAfterBuffer = ConvertError
     ''After processing, geometry became empty. Try increasing minimum line thickness.''"

definition large_min_line_warning :: string where
  "large_min_line_warning = ''Minimum line thickness is large; small details may be merged.''"

text \<open>\<open>max(min_line_mm/2.0, 0.01)\<close>.\<close>

definition half_width :: "rat \<Rightarrow> rat" where
  "half_width min_line_mm = max (min_line_mm / 2) (1 / 100)"

text \<open>The list \<open>polys\<close> of \<open>_buffer_to_min_line\<close>; only the last branch catches.\<close>

definition buffered_polys :: "'m kernel \<Rightarrow> geom \<Rightarrow> rat \<Rightarrow> exn + geom list" where
  "buffered_polys K geom half = (case geom of
       LineString _ \<Rightarrow>
         bind_exn (uncaught (k_buffer K geom half 16 CAP_flat JOIN_mitre)) (\<lambda>b. Inr [b])
     | Polygon _ \<Rightarrow>
         bind_exn (uncaught (k_buffer K geom 0 16 CAP_round JOIN_round)) (\<lambda>b. Inr [b])
     | MultiPolygon _ \<Rightarrow>
         bind_exn (uncaught (k_buffer K geom 0 16 CAP_round JOIN_round)) (\<lambda>b. Inr [b])
     | _ \<Rightarrow>
         (case k_buffer K geom 0 16 CAP_round JOIN_round of Inl _ \<Rightarrow> Inr [] | Inr b \<Rightarrow> Inr [b]))"

text \<open>The union of the list and its final clean-up by a zero buffer, which may fail silently.\<close>

definition cleaned_union :: "'m kernel \<Rightarrow> geom list \<Rightarrow> geom \<Rightarrow> geom" where
  "cleaned_union K polys geom =
     (let u = (if polys \<noteq> [] then k_unary_union K polys else geom)
      in case k_buffer K u 0 16 CAP_round JOIN_round of Inl _ \<Rightarrow> u | Inr b \<Rightarrow> b)"

definition buffer_to_min_line ::
    "'m kernel \<Rightarrow> geom \<Rightarrow> rat \<Rightarrow> string list \<Rightarrow> exn + (geom \<times> string list)" where
  "buffer_to_min_line K geom min_line_mm ws =
     (let half = half_width min_line_mm in
      bind_exn (buffered_polys K geom half) (\<lambda>polys.
        (let u2 = cleaned_union K polys geom
         in if is_empty u2 then Inl EmptyAfterBuffer
            else Inr (u2, if half > 1 then ws @ [large_min_line_warning] else ws))))"

section \<open>The pipeline\<close>

record DimensionReport =
  size_mm :: rat
  base_mm :: rat
  relief_mm :: rat
  mode :: string
  bbox_mm :: "rat \<times> rat \<times> rat \<times> rat"
  approx_area_mm2 :: rat
  warnings :: "string list"

text \<open>
  The keyword arguments of \<open>convert_svg_to_stl\<close>.  The mode may be \<open>None\<close>.  The path
  of the output file is left out: writing the file is not modelled, the mesh written is
  part of the result.
\<close>

record params =
  arg_size_mm :: rat
  arg_mode :: "string option"
  arg_base_mm :: rat
  arg_relief_mm :: rat
  arg_min_line_mm :: rat

definition ExtrudeError :: "string \<Rightarrow> exn" where
  "ExtrudeError e = ConvertError (''Could not extrude polygon: '' @ e)"

definition NoPrintableGeometry :: exn where
  "NoPrintableGeometry = ConvertError
     ''No printable geometry after processing. Try increasing min line thickness or simplifying the SVG.''"

definition ModeError :: exn where
  "ModeError = ConvertError (''Mode must be '' @ [CHR 0x27] @ ''raised'' @ [CHR 0x27] @ '' or ''
                              @ [CHR 0x27] @ ''engraved'' @ [CHR 0x27] @ ''.'')"

definition MeshEmpty :: exn where
  "MeshEmpty = ConvertError ''Mesh generation failed (empty).''"

definition scad_missing_raised_warning :: string where
  "scad_missing_raised_warning =
     ''OpenSCAD not found in container; exported as multi-solid STL (still printable).''"

definition scad_missing_engraved_warning :: string where
  "scad_missing_engraved_warning =
     ''OpenSCAD not found in container; engraved mode approximated (no boolean).''"

text \<open>The first loop of \<open>convert_svg_to_stl\<close>: lines become bands, polygons stay.\<close>

fun convert_raw :: "'m kernel \<Rightarrow> rat \<Rightarrow> geom list \<Rightarrow> exn + geom list" where
  "convert_raw K min_line [] = Inr []"
| "convert_raw K min_line (g # gs) =
     (case g of
        LineString _ \<Rightarrow>
          bind_exn (uncaught (k_buffer K g (half_width min_line) 16 CAP_flat JOIN_mitre)) (\<lambda>b.
          bind_exn (convert_raw K min_line gs) (\<lambda>r. Inr (b # r)))
      | Polygon _ \<Rightarrow> bind_exn (convert_raw K min_line gs) (\<lambda>r. Inr (g # r))
      | _ \<Rightarrow>
          (case k_buffer K g 0 16 CAP_round JOIN_round of
             Inl _ \<Rightarrow> convert_raw K min_line gs
           | Inr b \<Rightarrow> bind_exn (convert_raw K min_line gs) (\<lambda>r. Inr (b # r))))"

text \<open>The planar part of the pipeline, up to the second clean-up.\<close>

definition convert_2d ::
    "'m kernel \<Rightarrow> string + element \<Rightarrow> params \<Rightarrow> (exn + (geom \<times> string list)) option" where
  "convert_2d K parsed ps =
     (case extract_geometry K parsed of
        None \<Rightarrow> None
      | Some (Inl e) \<Rightarrow> Some (Inl e)
      | Some (Inr raw_geoms) \<Rightarrow>
          Some (bind_exn (convert_raw K (arg_min_line_mm ps) raw_geoms) (\<lambda>converted.
                bind_exn (clean_geometry K (k_unary_union K converted) []) (\<lambda>(g1, w1).
                bind_exn (normalize_to_size g1 (arg_size_mm ps) w1) (\<lambda>(g2, w2).
                bind_exn (buffer_to_min_line K g2 (arg_min_line_mm ps) w2) (\<lambda>(g3, w3).
                clean_geometry K g3 w3))))))"

text \<open>\<open>p.area\<close> and the regions the mesh loop runs over.\<close>

fun geom_area :: "geom \<Rightarrow> rat" where
  "geom_area (Polygon p) = poly_area p"
| "geom_area (MultiPolygon ps) = sum_list (map poly_area ps)"
| "geom_area (GeometryCollection gs) = sum_list (map geom_area gs)"
| "geom_area _ = 0"

definition regions_of :: "geom \<Rightarrow> geom list" where
  "regions_of g = (case g of MultiPolygon ps \<Rightarrow> map Polygon ps | _ \<Rightarrow> [g])"

text \<open>
  The loop that fills \<open>relief_meshes\<close>: a region that is empty or has no positive area
  is passed over, an exception of the extrusion becomes a conversion error, and every
  mesh is lifted onto the base.
\<close>

fun extrude_regions :: "'m kernel \<Rightarrow> geom list \<Rightarrow> rat \<Rightarrow> rat \<Rightarrow> exn + 'm list" where
  "extrude_regions K [] relief base = Inr []"
| "extrude_regions K (p # ps) relief base =
     (if is_empty p \<or> geom_area p \<le> 0 then extrude_regions K ps relief base
      else case k_extrude_polygon K p relief of
             Inl e \<Rightarrow> Inl (ExtrudeError e)
           | Inr m \<Rightarrow>
               bind_exn (extrude_regions K ps relief base)
                 (\<lambda>ms. Inr (k_apply_translation K m (0, 0, base) # ms)))"

text \<open>\<open>(mode or "raised").lower()\<close>.\<close>

definition normalize_mode :: "string option \<Rightarrow> string" where
  "normalize_mode m = lower (case m of None \<Rightarrow> ''raised'' | Some t \<Rightarrow> if t = [] then ''raised'' else t)"

text \<open>The combination of base and relief, with the warnings after it.\<close>

definition build_stamp ::
    "'m kernel \<Rightarrow> 'm \<Rightarrow> 'm \<Rightarrow> string \<Rightarrow> rat \<Rightarrow> string list \<Rightarrow> 'm \<times> string list" where
  "build_stamp K base relief md relief_height ws =
     (if md = ''raised'' then
        (if k_scad_exists K then k_boolean_union K [base, relief]
         else k_concatenate K [base, relief],
         if \<not> k_scad_exists K then ws @ [scad_missing_raised_warning] else ws)
      else
        (let cutter = k_apply_translation K relief (0, 0, - relief_height) in
         if k_scad_exists K then (k_boolean_difference K [base, cutter], ws)
         else (base, ws @ [scad_missing_engraved_warning])))"

text \<open>
  The rest of \<open>convert_svg_to_stl\<close>, from the cleaned geometry: the result is the mesh
  that is exported and the report.
\<close>

definition convert_3d ::
    "'m kernel \<Rightarrow> geom \<Rightarrow> string list \<Rightarrow> params \<Rightarrow> exn + ('m \<times> DimensionReport)" where
  "convert_3d K geom ws ps =
     (let base = k_apply_translation K
                   (k_box K (arg_size_mm ps, arg_size_mm ps, arg_base_mm ps))
                   (0, 0, arg_base_mm ps / 2)
      in bind_exn (extrude_regions K (regions_of geom) (arg_relief_mm ps) (arg_base_mm ps))
           (\<lambda>relief_meshes.
              if relief_meshes = [] then Inl NoPrintableGeometry
              else
                (let relief = k_concatenate K relief_meshes;
                     md = normalize_mode (arg_mode ps)
                 in if md \<noteq> ''raised'' \<and> md \<noteq> ''engraved'' then Inl ModeError
                    else
                      (let (stamp, ws2) = build_stamp K base relief md (arg_relief_mm ps) ws
                       in if k_mesh_is_empty K stamp then Inl MeshEmpty
                          else
                            (let stamp2 = k_process K stamp;
                                 ((minx, miny, minz), (maxx, maxy, maxz)) = k_mesh_bounds K stamp2
                             in Inr (stamp2,
                                     \<lparr>size_mm = arg_size_mm ps, base_mm = arg_base_mm ps,
                                      relief_mm = arg_relief_mm ps, mode = md,
                                      bbox_mm = (minx, miny, maxx, maxy),
                                      approx_area_mm2 = geom_area geom,
                                      warnings = ws2\<rparr>))))))"

definition convert_svg_to_stl ::
    "'m kernel \<Rightarrow> string + element \<Rightarrow> params \<Rightarrow> (exn + ('m \<times> DimensionReport)) option" where
  "convert_svg_to_stl K parsed ps =
     (case convert_2d K parsed ps of
        None \<Rightarrow> None
      | Some (Inl e) \<Rightarrow> Some (Inl e)
      | Some (Inr (geom, ws)) \<Rightarrow> Some (convert_3d K geom ws ps))"

section \<open>The request handler\<close>

text \<open>
  The query parameters of \<open>generate\<close> and the uploaded file, which enters by its name,
  its length and the outcome of parsing it.  \<open>RequestValidationError\<close> is the rejection
  by the web framework of a value outside the constraints declared in the signature
  (the \<open>Literal\<close> of the mode, \<open>ge\<close> and \<open>le\<close> of the three heights); it happens before
  the body runs.
\<close>

record request =
  q_size_mm :: int
  q_mode :: string
  q_base_mm :: rat
  q_relief_mm :: rat
  q_min_line_mm :: rat
  q_filename :: string
  q_file_size :: nat
  q_file_parsed :: "string + element"

datatype http_error = RequestValidationError | HTTPException nat string

definition ALLOWED_SIZES :: "int set" where
  "ALLOWED_SIZES = {25, 30, 40}"

definition ALLOWED_MODES :: "string set" where
  "ALLOWED_MODES = {''raised'', ''engraved''}"

definition query_valid :: "request \<Rightarrow> bool" where
  "query_valid req \<longleftrightarrow>
     q_mode req \<in> {''raised'', ''engraved''}
     \<and> 2 \<le> q_base_mm req \<and> q_base_mm req \<le> 20
     \<and> 6 / 10 \<le> q_relief_mm req \<and> q_relief_mm req \<le> 6
     \<and> 4 / 10 \<le> q_min_line_mm req \<and> q_min_line_mm req \<le> 4"

definition endswith :: "string \<Rightarrow> string \<Rightarrow> bool" where
  "endswith s suffix \<longleftrightarrow> startswith (rev s) (rev suffix)"

definition generate ::
    "'m kernel \<Rightarrow> request \<Rightarrow> (http_error + ('m \<times> DimensionReport)) option" where
  "generate K req =
     (if \<not> query_valid req then Some (Inl RequestValidationError)
      else if q_size_mm req \<notin> ALLOWED_SIZES
        then Some (Inl (HTTPException 400 ''Invalid size. Allowed sizes: 25, 30, 40 mm.''))
      else if q_mode req \<notin> ALLOWED_MODES
        then Some (Inl (HTTPException 400 ''Invalid mode. Allowed: raised, engraved.''))
      else if \<not> endswith (lower (q_filename req)) ''.svg''
        then Some (Inl (HTTPException 400 ''Please upload an SVG file (.svg).''))
      else if q_file_size req < 50
        then Some (Inl (HTTPException 400
                ''The uploaded file is empty or too small to be a valid SVG.''))
      else
        (case convert_svg_to_stl K (q_file_parsed req)
                \<lparr>arg_size_mm = of_int (q_size_mm req), arg_mode = Some (q_mode req),
                 arg_base_mm = q_base_mm req, arg_relief_mm = q_relief_mm req,
                 arg_min_line_mm = q_min_line_mm req\<rparr> of
           None \<Rightarrow> None
         | Some (Inl (ConvertError msg)) \<Rightarrow> Some (Inl (HTTPException 400 msg))
         | Some (Inl _) \<Rightarrow>
             Some (Inl (HTTPException 500
                ''Unexpected error while converting. Try simplifying the SVG and retry.''))
         | Some (Inr r) \<Rightarrow> Some (Inr r)))"

section \<open>A kernel for rectangles and boxes\<close>

text \<open>
  The properties below hold for every kernel.  To run the pipeline on concrete drawings a
  small exact kernel is given here.  Its planar regions are axis-parallel rectangles, its
  solids are finite unions of axis-parallel boxes, and on those it computes what the
  libraries compute as point sets: the union of regions that are pairwise disjoint or
  nested in a rectangle without holes, the band around a straight horizontal line with
  flat caps, the extrusion of a rectangle, and the difference of box unions.  Polygons
  that are not rectangles pass through union and repair unchanged, which is right when
  they are valid and apart from the rest; every other request raises.  The argument says
  whether the boolean engine is present.
\<close>

type_synonym box3 = "vec3 \<times> vec3"

text \<open>
  The corners \<open>(x0, y0, x1, y1)\<close> of a polygon that is a rectangle without holes, its
  ring running from the lower left corner to the right first.
\<close>

definition rect_corners :: "polygon \<Rightarrow> (rat \<times> rat \<times> rat \<times> rat) option" where
  "rect_corners p = (case exterior p of
       [(a, b), (c, d), (e, f), (g, h), (i, j)] \<Rightarrow>
         if interiors p = [] \<and> a < c \<and> b < f \<and> d = b \<and> e = c \<and> g = a \<and> h = f \<and> i = a \<and> j = b
         then Some (a, b, c, f) else None
     | _ \<Rightarrow> None)"

definition inside :: "polygon \<Rightarrow> polygon \<Rightarrow> bool" where
  "inside q p \<longleftrightarrow>
     (case rect_corners p of
        None \<Rightarrow> False
      | Some (x0, y0, x1, y1) \<Rightarrow>
          list_all (\<lambda>(x, y). x0 \<le> x \<and> x \<le> x1 \<and> y0 \<le> y \<and> y \<le> y1) (exterior q))"

fun absorb :: "polygon list \<Rightarrow> polygon list \<Rightarrow> polygon list" where
  "absorb acc [] = acc"
| "absorb acc (q # qs) =
     (if list_ex (inside q) acc then absorb acc qs
      else absorb (filter (\<lambda>p. \<not> inside p q) acc @ [q]) qs)"

fun polygons_in :: "geom \<Rightarrow> polygon list" where
  "polygons_in (Polygon p) = [p]"
| "polygons_in (MultiPolygon ps) = ps"
| "polygons_in (GeometryCollection gs) = concat (map polygons_in gs)"
| "polygons_in _ = []"

definition rect_union :: "geom list \<Rightarrow> geom" where
  "rect_union gs =
     (case absorb [] (filter (\<lambda>p. \<not> poly_is_empty p) (concat (map polygons_in gs))) of
        [] \<Rightarrow> GeometryCollection []
      | [p] \<Rightarrow> Polygon p
      | ps \<Rightarrow> MultiPolygon ps)"

text \<open>
  Repair of a multipolygon reads the rings by the even-odd rule: a member that lies in a
  rectangle of the multipolygon becomes a hole of that rectangle.
\<close>

definition rect_make_valid :: "geom \<Rightarrow> string + geom" where
  "rect_make_valid g = Inr (case g of
       MultiPolygon ps \<Rightarrow>
         MultiPolygon
           (map (\<lambda>p. Poly (exterior p)
                         (interiors p @ map exterior (filter (\<lambda>q. q \<noteq> p \<and> inside q p) ps)))
              (filter (\<lambda>q. \<not> list_ex (\<lambda>p. p \<noteq> q \<and> inside q p) ps) ps))
     | _ \<Rightarrow> g)"

definition rect_ring :: "rat \<Rightarrow> rat \<Rightarrow> rat \<Rightarrow> rat \<Rightarrow> ring" where
  "rect_ring x0 y0 x1 y1 = [(x0, y0), (x1, y0), (x1, y1), (x0, y1), (x0, y0)]"

definition rect_buffer :: "geom \<Rightarrow> rat \<Rightarrow> nat \<Rightarrow> nat \<Rightarrow> nat \<Rightarrow> string + geom" where
  "rect_buffer g d quad_segs cap join =
     (case g of
        Polygon p \<Rightarrow> if d = 0 then Inr (rect_union [g]) else Inl ''outside the rectangle kernel''
      | MultiPolygon ps \<Rightarrow> if d = 0 then Inr (rect_union [g]) else Inl ''outside the rectangle kernel''
      | LineString ps \<Rightarrow>
          if 0 < d \<and> cap = CAP_flat \<and> 2 \<le> length ps \<and> sorted_wrt (<) (map fst ps)
             \<and> list_all (\<lambda>q. snd q = snd (hd ps)) ps
          then Inr (Polygon (Poly (rect_ring (fst (hd ps)) (snd (hd ps) - d)
                                             (fst (last ps)) (snd (hd ps) + d)) []))
          else Inl ''outside the rectangle kernel''
      | _ \<Rightarrow> Inl ''outside the rectangle kernel'')"

definition rect_extrude :: "geom \<Rightarrow> rat \<Rightarrow> string + box3 list" where
  "rect_extrude g h =
     (case g of
        Polygon p \<Rightarrow>
          (case rect_corners p of
             Some (x0, y0, x1, y1) \<Rightarrow>
               if 0 < h then Inr [((x0, y0, 0), (x1, y1, h))]
               else Inl ''outside the rectangle kernel''
           | None \<Rightarrow> Inl ''outside the rectangle kernel'')
      | _ \<Rightarrow> Inl ''outside the rectangle kernel'')"

definition box_shift :: "vec3 \<Rightarrow> box3 \<Rightarrow> box3" where
  "box_shift v b = (case (v, b) of ((dx, dy, dz), ((x0, y0, z0), (x1, y1, z1))) \<Rightarrow>
       ((x0 + dx, y0 + dy, z0 + dz), (x1 + dx, y1 + dy, z1 + dz)))"

definition box_solid :: "box3 \<Rightarrow> bool" where
  "box_solid b = (case b of ((x0, y0, z0), (x1, y1, z1)) \<Rightarrow> x0 < x1 \<and> y0 < y1 \<and> z0 < z1)"

text \<open>A box without another: the parts beside, before and behind, below and above the overlap.\<close>

definition box_minus :: "box3 \<Rightarrow> box3 \<Rightarrow> box3 list" where
  "box_minus a b = (case (a, b) of (((ax0, ay0, az0), (ax1, ay1, az1)), ((bx0, by0, bz0), (bx1, by1, bz1))) \<Rightarrow>
       (let ix0 = max ax0 bx0; ix1 = min ax1 bx1;
            iy0 = max ay0 by0; iy1 = min ay1 by1;
            iz0 = max az0 bz0; iz1 = min az1 bz1
        in if ix0 \<ge> ix1 \<or> iy0 \<ge> iy1 \<or> iz0 \<ge> iz1 then [a]
           else filter box_solid
                  [((ax0, ay0, az0), (ix0, ay1, az1)), ((ix1, ay0, az0), (ax1, ay1, az1)),
                   ((ix0, ay0, az0), (ix1, iy0, az1)), ((ix0, iy1, az0), (ix1, ay1, az1)),
                   ((ix0, iy0, az0), (ix1, iy1, iz0)), ((ix0, iy0, iz1), (ix1, iy1, az1))]))"

definition boxes_difference :: "box3 list list \<Rightarrow> box3 list" where
  "boxes_difference ms = (case ms of
       [] \<Rightarrow> []
     | a # cutters \<Rightarrow> fold (\<lambda>c bs. concat (map (\<lambda>b. box_minus b c) bs)) (concat cutters) a)"

definition boxes_bounds :: "box3 list \<Rightarrow> vec3 \<times> vec3" where
  "boxes_bounds m =
     (if m = [] then ((0, 0, 0), (0, 0, 0))
      else ((Min (set (map (\<lambda>b. fst (fst b)) m)), Min (set (map (\<lambda>b. fst (snd (fst b))) m)),
             Min (set (map (\<lambda>b. snd (snd (fst b))) m))),
            (Max (set (map (\<lambda>b. fst (snd b)) m)), Max (set (map (\<lambda>b. fst (snd (snd b))) m)),
             Max (set (map (\<lambda>b. snd (snd (snd b))) m)))))"

definition rect_kernel :: "bool \<Rightarrow> box3 list kernel" where
  "rect_kernel scad =
     \<lparr>k_buffer = rect_buffer,
      k_unary_union = rect_union,
      k_make_valid = rect_make_valid,
      k_box = (\<lambda>(sx, sy, sz). [((- sx / 2, - sy / 2, - sz / 2), (sx / 2, sy / 2, sz / 2))]),
      k_extrude_polygon = rect_extrude,
      k_apply_translation = (\<lambda>m v. map (box_shift v) m),
      k_concatenate = concat,
      k_scad_exists = scad,
      k_boolean_union = concat,
      k_boolean_difference = boxes_difference,
      k_mesh_is_empty = (\<lambda>m. m = []),
      k_process = (\<lambda>m. m),
      k_mesh_bounds = boxes_bounds\<rparr>"

section \<open>Sample inputs\<close>

text \<open>The default arguments of \<open>convert_svg_to_stl\<close>, and some small drawings and regions.\<close>

definition default_params :: params where
  "default_params = \<lparr>arg_size_mm = 30, arg_mode = Some ''raised'', arg_base_mm = 7,
                      arg_relief_mm = 22 / 10, arg_min_line_mm = 14 / 10\<rparr>"

definition square_doc :: element where
  "square_doc = Element ''{http://www.w3.org/2000/svg}svg'' []
     [Element ''{http://www.w3.org/2000/svg}rect'' [(''width'', ''10''), (''height'', ''10'')] []]"

definition triangle_doc :: element where
  "triangle_doc = Element ''{http://www.w3.org/2000/svg}svg'' []
     [Element ''{http://www.w3.org/2000/svg}polygon'' [(''points'', ''0,0 10,0 0,10'')] []]"

definition square30 :: polygon where
  "square30 = Poly [(- 15, - 15), (15, - 15), (15, 15), (- 15, 15), (- 15, - 15)] []"

definition triangle30 :: polygon where
  "triangle30 = Poly [(- 15, - 15), (15, - 15), (- 15, 15), (- 15, - 15)] []"

definition bowtie30 :: polygon where
  "bowtie30 = Poly [(- 15, - 15), (15, 15), (15, - 15), (- 15, 15), (- 15, - 15)] []"




section \<open>Auxiliary notions for the proofs\<close>


text \<open>The invariant of the loop: the current command, once set, is one of the ten letters.\<close>

definition cmd_ok :: "pstate \<Rightarrow> bool" where
  "cmd_ok s \<longleftrightarrow> (case p_cmd s of None \<Rightarrow> True | Some c \<Rightarrow> is_cmd_char c)"


section \<open>Properties of the path interpreter\<close>

lemma read_num_error: "read_num ts = Inl e \<Longrightarrow> e = IndexError \<or> e = ValueError"
  by (auto simp: read_num_def split: list.splits option.splits)

lemma is_cmd_char_cases:
  assumes "is_cmd_char c"
  obtains "c = CHR ''M''" | "c = CHR ''m''" | "c = CHR ''L''" | "c = CHR ''l''"
    | "c = CHR ''H''" | "c = CHR ''h''" | "c = CHR ''V''" | "c = CHR ''v''"
    | "c = CHR ''Z''" | "c = CHR ''z''"
  using assms unfolding is_cmd_char_def by fastforce

lemma dispatch_cmd_char:
  assumes "is_cmd_char c"
  shows "(\<forall>e. dispatch c s = Inl (Inl e) \<longrightarrow> e = IndexError \<or> e = ValueError) \<and>
         (\<forall>s'. dispatch c s = Inr s' \<longrightarrow>
            p_cmd s' = p_cmd s \<or> p_cmd s' = Some CHR ''l'' \<or> p_cmd s' = Some CHR ''L'')"
  using assms
proof (cases rule: is_cmd_char_cases)
  case 1
  then show ?thesis
    using read_num_error
    by (simp add: dispatch_def Let_def split: sum.splits prod.splits; auto)
next
  case 2
  then show ?thesis
    using read_num_error
    by (simp add: dispatch_def Let_def split: sum.splits prod.splits; auto)
next
  case 3
  then show ?thesis
    using read_num_error
    by (simp add: dispatch_def Let_def split: sum.splits prod.splits; auto)
next
  case 4
  then show ?thesis
    using read_num_error
    by (simp add: dispatch_def Let_def split: sum.splits prod.splits; auto)
next
  case 5
  then show ?thesis
    using read_num_error
    by (simp add: dispatch_def Let_def split: sum.splits prod.splits; auto)
next
  case 6
  then show ?thesis
    using read_num_error
    by (simp add: dispatch_def Let_def split: sum.splits prod.splits; auto)
next
  case 7
  then show ?thesis
    using read_num_error
    by (simp add: dispatch_def Let_def split: sum.splits prod.splits; auto)
next
  case 8
  then show ?thesis
    using read_num_error
    by (simp add: dispatch_def Let_def split: sum.splits prod.splits; auto)
next
  case 9
  then show ?thesis by (simp add: dispatch_def)
next
  case 10
  then show ?thesis by (simp add: dispatch_def)
qed

lemma cmd_of_token_Some: "cmd_of_token t = Some c \<Longrightarrow> is_cmd_char c"
  by (auto simp: cmd_of_token_def split: list.splits if_splits)

lemma path_step_error:
  assumes "cmd_ok s" and "path_step s = Inl (Inl e)"
  shows "e = IndexError \<or> e = ValueError \<or> e = NumbersBeforeCommand"
proof (cases "p_toks s")
  case Nil
  with assms show ?thesis by (simp add: path_step_def)
next
  case (Cons t rest)
  show ?thesis
  proof (cases "cmd_of_token t")
    case None
    show ?thesis
    proof (cases "p_cmd s")
      case None
      with Cons \<open>cmd_of_token t = None\<close> assms show ?thesis
        by (simp add: path_step_def)
    next
      case (Some c)
      with assms have "is_cmd_char c" by (simp add: cmd_ok_def)
      from Cons Some \<open>cmd_of_token t = None\<close> assms have "dispatch c s = Inl (Inl e)"
        by (simp add: path_step_def)
      with dispatch_cmd_char [OF \<open>is_cmd_char c\<close>, of s] show ?thesis
        by blast
    qed
  next
    case (Some c)
    then have cc: "is_cmd_char c" by (rule cmd_of_token_Some)
    show ?thesis
    proof (cases "c \<in> set ''Zz''")
      case True
      with Cons Some assms show ?thesis by (simp add: path_step_def)
    next
      case False
      with Cons Some assms
      have "dispatch c (s\<lparr>p_toks := rest, p_cmd := Some c\<rparr>) = Inl (Inl e)"
        by (simp add: path_step_def)
      with dispatch_cmd_char [OF cc, of "s\<lparr>p_toks := rest, p_cmd := Some c\<rparr>"]
      show ?thesis by blast
    qed
  qed
qed

lemma path_step_cmd_ok:
  assumes "cmd_ok s" and "path_step s = Inr s'"
  shows "cmd_ok s'"
proof (cases "p_toks s")
  case Nil
  with assms show ?thesis by (simp add: path_step_def)
next
  case (Cons t rest)
  show ?thesis
  proof (cases "cmd_of_token t")
    case None
    with Cons assms obtain c where c: "p_cmd s = Some c" "dispatch c s = Inr s'"
      by (auto simp: path_step_def split: option.splits)
    with assms have cc: "is_cmd_char c" by (simp add: cmd_ok_def)
    from dispatch_cmd_char [OF cc, of s] c
    have "p_cmd s' = Some c \<or> p_cmd s' = Some CHR ''l'' \<or> p_cmd s' = Some CHR ''L''"
      by auto
    with cc show ?thesis by (auto simp: cmd_ok_def is_cmd_char_def)
  next
    case (Some c)
    then have cc: "is_cmd_char c" by (rule cmd_of_token_Some)
    show ?thesis
    proof (cases "c \<in> set ''Zz''")
      case True
      with Some Cons assms cc show ?thesis
        by (auto simp: path_step_def cmd_ok_def)
    next
      case False
      with Some Cons assms have d: "dispatch c (s\<lparr>p_toks := rest, p_cmd := Some c\<rparr>) = Inr s'"
        by (simp add: path_step_def)
      from dispatch_cmd_char [OF cc, of "s\<lparr>p_toks := rest, p_cmd := Some c\<rparr>"] d
      have "p_cmd s' = Some c \<or> p_cmd s' = Some CHR ''l'' \<or> p_cmd s' = Some CHR ''L''"
        by auto
      with cc show ?thesis by (auto simp: cmd_ok_def is_cmd_char_def)
    qed
  qed
qed

text \<open>The exceptions that can leave the loop, by fixpoint induction.\<close>

lemma path_loop_error:
  assumes "path_loop s = Some r"
  shows "cmd_ok s \<longrightarrow>
         (\<forall>e. r = Inl e \<longrightarrow> e = IndexError \<or> e = ValueError \<or> e = NumbersBeforeCommand)"
proof (rule path_loop.raw_induct
    [where P = "\<lambda>s r. cmd_ok s \<longrightarrow>
       (\<forall>e. r = Inl e \<longrightarrow> e = IndexError \<or> e = ValueError \<or> e = NumbersBeforeCommand)",
     OF _ assms])
  fix loop :: "pstate \<Rightarrow> (exn + point list) option" and t u
  assume IH: "\<And>x y. loop x = Some y \<Longrightarrow> cmd_ok x \<longrightarrow>
       (\<forall>e. y = Inl e \<longrightarrow> e = IndexError \<or> e = ValueError \<or> e = NumbersBeforeCommand)"
    and st: "(case path_step t of Inl r \<Rightarrow> Some r | Inr s' \<Rightarrow> loop s') = Some u"
  show "cmd_ok t \<longrightarrow>
       (\<forall>e. u = Inl e \<longrightarrow> e = IndexError \<or> e = ValueError \<or> e = NumbersBeforeCommand)"
  proof (cases "path_step t")
    case (Inl a)
    with st path_step_error [of t] show ?thesis by auto
  next
    case (Inr s')
    with st IH path_step_cmd_ok [of t s'] show ?thesis by auto
  qed
qed

lemma path_to_linestring_error:
  assumes "path_to_linestring d = Some (Inl e)"
  shows "e = IndexError \<or> e = ValueError \<or> e = NumbersBeforeCommand"
proof -
  from assms have "path_loop (path_init (findall_tokens 0 d)) = Some (Inl e)"
    by (auto simp: path_to_linestring_def Let_def split: if_splits option.splits sum.splits)
  moreover have "cmd_ok (path_init (findall_tokens 0 d))"
    by (simp add: cmd_ok_def path_init_def)
  ultimately show ?thesis
    using path_loop_error by blast
qed

text \<open>
  The last branch of the command chain, the only place where the unsupported-command
  error is raised, is never reached: the tokenizer yields no command letter outside
  \<open>MmLlHhVvZz\<close>.
\<close>

lemma path_to_linestring_never_unsupported:
  "path_to_linestring d \<noteq> Some (Inl UnsupportedPathCommand)"
  using path_to_linestring_error [of d UnsupportedPathCommand]
  by (auto simp: UnsupportedPathCommand_def NumbersBeforeCommand_def)

text \<open>
  C1.  The claim: a path whose command string holds a curve or arc command (C, Q, A or
  their relative forms) fails with the unsupported-command error.  The code at the path
  \<open>M 0 0 C 1 1 2 2 3 3\<close>: the letter C is not a token, its six numbers are read as
  three implicit line-to pairs, and the call returns the four points.
\<close>

theorem path_curve_accepted:
  "path_to_linestring ''M 0 0 C 1 1 2 2 3 3'' = Some (Inr (Some [(0, 0), (1, 1), (2, 2), (3, 3)]))"
  by code_simp


section \<open>Properties of the hole removal\<close>

lemma holes_loop_eq:
  "holes_loop rs t keep removed =
     (keep @ filter (\<lambda>r. t \<le> ring_area r) rs, removed + length (filter (\<lambda>r. \<not> t \<le> ring_area r) rs))"
  by (induction rs arbitrary: keep removed) auto

lemma remove_small_holes_eq:
  "remove_small_holes poly t w =
     (Poly (exterior poly) (filter (\<lambda>r. t \<le> ring_area r) (interiors poly)),
      if \<exists>r \<in> set (interiors poly). ring_area r < t
      then w @ [removed_holes_warning (length (filter (\<lambda>r. \<not> t \<le> ring_area r) (interiors poly)))]
      else w)"
proof (cases "interiors poly = []")
  case True
  then show ?thesis by (cases poly) (simp add: remove_small_holes_def)
next
  case False
  have "(length (filter (\<lambda>r. \<not> t \<le> ring_area r) (interiors poly)) \<noteq> 0)
        = (\<exists>r \<in> set (interiors poly). ring_area r < t)"
    by (auto simp: filter_empty_conv not_le)
  with False show ?thesis
    by (simp add: remove_small_holes_def holes_loop_eq)
qed

text \<open>
  C4.  For every polygon and threshold, in particular the fixed \<open>min_hole_area\<close> of
  \<open>_clean_geometry\<close>: the exterior ring of the result is the exterior ring of the
  input, every hole ring kept has area at least the threshold, and every hole ring of the
  input that is not kept has area strictly below it.
\<close>

theorem remove_small_holes_threshold:
  assumes "remove_small_holes poly t w = (poly', w')"
  shows "exterior poly' = exterior poly
       \<and> (\<forall>r \<in> set (interiors poly'). t \<le> ring_area r)
       \<and> (\<forall>r \<in> set (interiors poly). r \<notin> set (interiors poly') \<longrightarrow> ring_area r < t)
       \<and> set (interiors poly') \<subseteq> set (interiors poly)"
  using assms by (auto simp: remove_small_holes_eq)

theorem remove_small_holes_threshold_witness:
  "remove_small_holes
     (Poly [(0, 0), (10, 0), (10, 10), (0, 10), (0, 0)]
        [[(1, 1), (1, 2), (2, 2), (2, 1), (1, 1)],
         [(4, 4), (4, 43 / 10), (43 / 10, 43 / 10), (43 / 10, 4), (4, 4)]])
     min_hole_area []
   = (Poly [(0, 0), (10, 0), (10, 10), (0, 10), (0, 0)] [[(1, 1), (1, 2), (2, 2), (2, 1), (1, 1)]],
      [''Removed 1 small hole(s) to improve printability.''])
   \<and> min_hole_area \<le> ring_area [(1, 1), (1, 2), (2, 2), (2, 1), (1, 1)]
   \<and> ring_area [(4, 4), (4, 43 / 10), (43 / 10, 43 / 10), (43 / 10, 4), (4, 4)] < min_hole_area"
proof -
  have h: "remove_small_holes
     (Poly [(0, 0), (10, 0), (10, 10), (0, 10), (0, 0)]
        [[(1, 1), (1, 2), (2, 2), (2, 1), (1, 1)],
         [(4, 4), (4, 43 / 10), (43 / 10, 43 / 10), (43 / 10, 4), (4, 4)]])
     min_hole_area []
   = (Poly [(0, 0), (10, 0), (10, 10), (0, 10), (0, 0)] [[(1, 1), (1, 2), (2, 2), (2, 1), (1, 1)]],
      [''Removed 1 small hole(s) to improve printability.''])"
    by code_simp
  from remove_small_holes_threshold [OF h] h show ?thesis
    by simp
qed

section \<open>Properties of the scaler\<close>

lemma envelope_coords_map_coords:
  "envelope_coords (map_coords f g) = map f (envelope_coords g)"
  by (induction g) (auto simp: map_poly_def map_concat comp_def cong: map_cong)

lemma Min_affine:
  fixes a b :: rat
  assumes "0 < a" and "xs \<noteq> []"
  shows "Min (set (map (\<lambda>x. a * x + b) xs)) = a * Min (set xs) + b"
proof -
  have "mono (\<lambda>x. a * x + b)"
    using assms(1) by (simp add: mono_def)
  from mono_Min_commute [OF this, of "set xs"] assms(2) show ?thesis
    by simp
qed

lemma Max_affine:
  fixes a b :: rat
  assumes "0 < a" and "xs \<noteq> []"
  shows "Max (set (map (\<lambda>x. a * x + b) xs)) = a * Max (set xs) + b"
proof -
  have "mono (\<lambda>x. a * x + b)"
    using assms(1) by (simp add: mono_def)
  from mono_Max_commute [OF this, of "set xs"] assms(2) show ?thesis
    by simp
qed

lemma bounds_affine:
  assumes "bounds g = Some (minx, miny, maxx, maxy)" and "0 < a"
  shows "bounds (map_coords (\<lambda>(x, y). (a * x + b, a * y + c)) g)
         = Some (a * minx + b, a * miny + c, a * maxx + b, a * maxy + c)"
proof -
  let ?cs = "envelope_coords g"
  let ?f = "\<lambda>(x, y). (a * x + b, a * y + c)"
  from assms(1) have ne: "?cs \<noteq> []"
    by (auto simp: bounds_def Let_def split: if_splits)
  have fx: "map fst (map ?f ?cs) = map (\<lambda>x. a * x + b) (map fst ?cs)"
    by (simp add: comp_def case_prod_beta)
  have fy: "map snd (map ?f ?cs) = map (\<lambda>y. a * y + c) (map snd ?cs)"
    by (simp add: comp_def case_prod_beta)
  from ne have nx: "map fst ?cs \<noteq> []" and ny: "map snd ?cs \<noteq> []" by simp_all
  from assms(1) ne have b: "minx = Min (set (map fst ?cs))" "miny = Min (set (map snd ?cs))"
    "maxx = Max (set (map fst ?cs))" "maxy = Max (set (map snd ?cs))"
    by (simp_all add: bounds_def Let_def)
  have "bounds (map_coords ?f g) =
        Some (Min (set (map fst (map ?f ?cs))), Min (set (map snd (map ?f ?cs))),
              Max (set (map fst (map ?f ?cs))), Max (set (map snd (map ?f ?cs))))"
    using ne by (simp add: bounds_def envelope_coords_map_coords Let_def)
  also have "\<dots> = Some (a * minx + b, a * miny + c, a * maxx + b, a * maxy + c)"
    unfolding fx fy b
    using Min_affine [OF assms(2) nx] Min_affine [OF assms(2) ny]
      Max_affine [OF assms(2) nx] Max_affine [OF assms(2) ny]
    by simp
  finally show ?thesis .
qed

lemma bounds_scale:
  assumes "bounds g = Some (minx, miny, maxx, maxy)" and "0 < s"
  shows "bounds (shp_scale g s s (0, 0)) = Some (s * minx, s * miny, s * maxx, s * maxy)"
  using bounds_affine [OF assms, of 0 0] by (simp add: shp_scale_def)

lemma bounds_translate:
  assumes "bounds g = Some (minx, miny, maxx, maxy)"
  shows "bounds (translate g dx dy) = Some (minx + dx, miny + dy, maxx + dx, maxy + dy)"
  using bounds_affine [OF assms, of 1 dx dy] by (simp add: translate_def)

text \<open>
  C5, as amended.  For a geometry with bounds \<open>(minx, miny, maxx, maxy)\<close>: if the
  width or the height of the box is zero the call fails with the degenerate-bounds
  error; if both are positive and the target size is not positive it fails with the
  scale-factor error; if both are positive and the target size is positive it returns
  the geometry scaled about the origin by \<open>s = target / max width height\<close> and then
  translated so that the box is centred at the origin (the box of the result is
  symmetric about it), and the list of warnings grows by the scale-down warning exactly
  when \<open>s < 1/2\<close>.
\<close>

theorem normalize_to_size_correct:
  assumes "bounds geom = Some (minx, miny, maxx, maxy)"
  shows "(maxx - minx = 0 \<or> maxy - miny = 0 \<longrightarrow>
            normalize_to_size geom target w = Inl DegenerateBounds)
       \<and> (0 < maxx - minx \<and> 0 < maxy - miny \<and> target \<le> 0 \<longrightarrow>
            normalize_to_size geom target w = Inl ScaleFactorError)
       \<and> (0 < maxx - minx \<and> 0 < maxy - miny \<and> 0 < target \<longrightarrow>
            (let s = target / max (maxx - minx) (maxy - miny);
                 g' = translate (shp_scale geom s s (0, 0))
                        (- (s * (minx + maxx) / 2)) (- (s * (miny + maxy) / 2))
             in normalize_to_size geom target w
                  = Inr (g', if s < 1 / 2 then w @ [scaled_down_warning] else w)
              \<and> bounds g' = Some (- (s * (maxx - minx) / 2), - (s * (maxy - miny) / 2),
                                  s * (maxx - minx) / 2, s * (maxy - miny) / 2)))"
proof (intro conjI impI)
  assume "maxx - minx = 0 \<or> maxy - miny = 0"
  with assms show "normalize_to_size geom target w = Inl DegenerateBounds"
    by (auto simp: normalize_to_size_def)
next
  assume a: "0 < maxx - minx \<and> 0 < maxy - miny \<and> target \<le> 0"
  then have "target / max (maxx - minx) (maxy - miny) \<le> 0"
    by (simp add: divide_le_0_iff max_def)
  with a assms show "normalize_to_size geom target w = Inl ScaleFactorError"
    by (simp add: normalize_to_size_def Let_def not_le [symmetric])
next
  assume a: "0 < maxx - minx \<and> 0 < maxy - miny \<and> 0 < target"
  define s where "s = target / max (maxx - minx) (maxy - miny)"
  from a have s: "0 < s" by (simp add: s_def max_def)
  note bs = bounds_scale [OF assms s]
  have c: "(s * minx + s * maxx) / 2 = s * (minx + maxx) / 2"
    "(s * miny + s * maxy) / 2 = s * (miny + maxy) / 2"
    by (simp_all add: algebra_simps)
  have n: "normalize_to_size geom target w =
        Inr (translate (shp_scale geom s s (0, 0)) (- (s * (minx + maxx) / 2)) (- (s * (miny + maxy) / 2)),
             if s < 1 / 2 then w @ [scaled_down_warning] else w)"
    unfolding c [symmetric]
    using a s assms bs
    by (simp add: normalize_to_size_def Let_def s_def [symmetric] not_le [symmetric])
  have b: "bounds (translate (shp_scale geom s s (0, 0)) (- (s * (minx + maxx) / 2)) (- (s * (miny + maxy) / 2)))
        = Some (- (s * (maxx - minx) / 2), - (s * (maxy - miny) / 2),
                s * (maxx - minx) / 2, s * (maxy - miny) / 2)"
    unfolding bounds_translate [OF bs]
    by (simp add: field_simps)
  from n b show "let s = target / max (maxx - minx) (maxy - miny);
        g' = translate (shp_scale geom s s (0, 0))
               (- (s * (minx + maxx) / 2)) (- (s * (miny + maxy) / 2))
    in normalize_to_size geom target w = Inr (g', if s < 1 / 2 then w @ [scaled_down_warning] else w)
       \<and> bounds g' = Some (- (s * (maxx - minx) / 2), - (s * (maxy - miny) / 2),
                           s * (maxx - minx) / 2, s * (maxy - miny) / 2)"
    by (simp add: Let_def s_def [symmetric])
qed

theorem normalize_to_size_correct_witness:
  "bounds (Polygon (Poly [(0, 0), (100, 0), (100, 50), (0, 50), (0, 0)] [])) = Some (0, 0, 100, 50)
   \<and> normalize_to_size (Polygon (Poly [(0, 0), (100, 0), (100, 50), (0, 50), (0, 0)] [])) 30 []
       = Inr (Polygon (Poly [(- 15, - 15 / 2), (15, - 15 / 2), (15, 15 / 2), (- 15, 15 / 2),
                              (- 15, - 15 / 2)] []),
              [scaled_down_warning])
   \<and> bounds (Polygon (Poly [(- 15, - 15 / 2), (15, - 15 / 2), (15, 15 / 2), (- 15, 15 / 2),
                              (- 15, - 15 / 2)] []))
       = Some (- 15, - 15 / 2, 15, 15 / 2)"
proof -
  have h: "bounds (Polygon (Poly [(0, 0), (100, 0), (100, 50), (0, 50), (0, 0)] []))
           = Some (0, 0, 100, 50)"
    by (simp add: bounds_def)
  from normalize_to_size_correct [OF h, of 30 "[]"] h show ?thesis
    by (simp add: Let_def translate_def shp_scale_def map_poly_def)
qed

text \<open>
  C5 as stated fails where the target size is not positive: the box of the square has
  positive width and height, and the call raises instead of returning a geometry.
\<close>

theorem normalize_to_size_zero_target:
  "bounds (Polygon (Poly [(0, 0), (10, 0), (10, 10), (0, 10), (0, 0)] [])) = Some (0, 0, 10, 10)
   \<and> normalize_to_size (Polygon (Poly [(0, 0), (10, 0), (10, 10), (0, 10), (0, 0)] [])) 0 []
       = Inl ScaleFactorError"
  by (simp add: normalize_to_size_def bounds_def)

section \<open>Properties of the shape extractor\<close>


lemma bind_exn_Inr_iff:
  "bind_exn m f = Inr r \<longleftrightarrow> (\<exists>v. m = Inr v \<and> f v = Inr r)"
  by (cases m) (simp_all add: bind_exn_def)

lemma bind_exn_simps:
  "bind_exn (Inl e) f = Inl e" "bind_exn (Inr v) f = f v"
  by (simp_all add: bind_exn_def)








lemma extract_loop_nonempty:
  "extract_loop K els geoms = Some (Inr gs) \<Longrightarrow> geoms \<noteq> [] \<Longrightarrow> gs \<noteq> []"
  by (induction els arbitrary: geoms) (auto split: option.splits sum.splits)







lemma re_search_raster_append:
  "re_search_raster s \<Longrightarrow> re_search_raster (pre @ s)"
  by (induction pre) auto

text \<open>What the extension test accepts.\<close>

lemma re_search_raster_ext:
  assumes "lower e = x" and "x \<in> set raster_exts" and "ext_end rest"
  shows "re_search_raster (pre @ CHR ''.'' # e @ rest)"
proof -
  from assms have "match_ext_here (CHR ''.'' # e @ rest)"
    by (auto simp: match_ext_here_def list_ex_iff lower_def intro!: bexI [of _ x])
  then have "re_search_raster (CHR ''.'' # e @ rest)" by simp
  then show ?thesis by (rule re_search_raster_append)
qed

section \<open>Properties of the mesh builder and of the entry point\<close>

text \<open>The planar part of the pipeline on the sample drawings.\<close>

lemma convert_2d_mode:
  "convert_2d K parsed (ps\<lparr>arg_mode := m\<rparr>) = convert_2d K parsed ps"
  by (simp add: convert_2d_def split: option.splits sum.splits)

lemma square_2d:
  "convert_2d (rect_kernel False) (Inr square_doc) default_params
   = Some (Inr (MultiPolygon [square30], []))"
  by code_simp

lemma triangle_2d:
  "convert_2d (rect_kernel False) (Inr triangle_doc) default_params
   = Some (Inr (MultiPolygon [triangle30], []))"
  by code_simp

lemma extrude_regions_filter:
  "extrude_regions K rs h b
   = extrude_regions K (filter (\<lambda>p. \<not> (is_empty p \<or> geom_area p \<le> 0)) rs) h b"
  by (induction rs) (simp_all split: sum.splits)

lemma extrude_regions_raises:
  assumes "\<exists>p \<in> set rs. \<not> (is_empty p \<or> geom_area p \<le> 0)
                        \<and> (\<exists>e. k_extrude_polygon K p h = Inl e)"
  shows "\<exists>e. extrude_regions K rs h b = Inl (ExtrudeError e)"
  using assms
proof (induction rs)
  case Nil
  then show ?case by simp
next
  case (Cons p rs)
  show ?case
  proof (cases "is_empty p \<or> geom_area p \<le> 0")
    case True
    with Cons show ?thesis by auto
  next
    case False
    show ?thesis
    proof (cases "k_extrude_polygon K p h")
      case (Inl e)
      with False show ?thesis by auto
    next
      case (Inr m)
      with False Cons.prems
      have "\<exists>q \<in> set rs. \<not> (is_empty q \<or> geom_area q \<le> 0)
                        \<and> (\<exists>e. k_extrude_polygon K q h = Inl e)"
        by auto
      from Cons.IH [OF this] obtain e where "extrude_regions K rs h b = Inl (ExtrudeError e)" ..
      with False Inr show ?thesis by (auto simp: bind_exn_def)
    qed
  qed
qed

lemma extrude_regions_none:
  assumes "\<forall>p \<in> set rs. is_empty p \<or> geom_area p \<le> 0"
  shows "extrude_regions K rs h b = Inr []"
  using assms by (induction rs) auto

lemma extrude_regions_error:
  "extrude_regions K rs h b = Inl x \<Longrightarrow> \<exists>e. x = ExtrudeError e"
  by (induction rs) (auto simp: bind_exn_def split: if_splits sum.splits)

lemma convert_3d_extrude_error:
  assumes "extrude_regions K (regions_of geom) (arg_relief_mm ps) (arg_base_mm ps) = Inl e"
  shows "convert_3d K geom ws ps = Inl e"
  using assms by (simp add: convert_3d_def Let_def bind_exn_def)

lemma convert_3d_no_mesh:
  assumes "extrude_regions K (regions_of geom) (arg_relief_mm ps) (arg_base_mm ps) = Inr []"
  shows "convert_3d K geom ws ps = Inl NoPrintableGeometry"
  using assms by (simp add: convert_3d_def Let_def bind_exn_def)

text \<open>
  C9.  In the mesh loop a region that is empty or has area at most zero is passed over:
  the loop gives what it gives on the list without such regions.  If the extrusion of
  some region that is not passed over raises, the conversion fails with the
  extrusion error; if every region is passed over, it fails with the error that nothing
  printable is left.  The mesh stage is what the entry point runs once the planar part
  has returned.
\<close>

theorem mesh_building:
  "extrude_regions K rs h b
     = extrude_regions K (filter (\<lambda>p. \<not> (is_empty p \<or> geom_area p \<le> 0)) rs) h b
   \<and> ((\<exists>p \<in> set (regions_of geom). \<not> (is_empty p \<or> geom_area p \<le> 0)
           \<and> (\<exists>e. k_extrude_polygon K p (arg_relief_mm ps) = Inl e))
        \<longrightarrow> (\<exists>e. convert_3d K geom ws ps = Inl (ExtrudeError e)))
   \<and> ((\<forall>p \<in> set (regions_of geom). is_empty p \<or> geom_area p \<le> 0)
        \<longrightarrow> convert_3d K geom ws ps = Inl NoPrintableGeometry)
   \<and> (convert_2d K parsed ps = Some (Inr (geom, ws))
        \<longrightarrow> convert_svg_to_stl K parsed ps = Some (convert_3d K geom ws ps))"
proof (intro conjI impI)
  show "extrude_regions K rs h b
     = extrude_regions K (filter (\<lambda>p. \<not> (is_empty p \<or> geom_area p \<le> 0)) rs) h b"
    by (rule extrude_regions_filter)
next
  assume "\<exists>p \<in> set (regions_of geom). \<not> (is_empty p \<or> geom_area p \<le> 0)
           \<and> (\<exists>e. k_extrude_polygon K p (arg_relief_mm ps) = Inl e)"
  from extrude_regions_raises [OF this, of "arg_base_mm ps"]
  show "\<exists>e. convert_3d K geom ws ps = Inl (ExtrudeError e)"
    by (auto simp: convert_3d_extrude_error)
next
  assume "\<forall>p \<in> set (regions_of geom). is_empty p \<or> geom_area p \<le> 0"
  from extrude_regions_none [OF this, of K "arg_relief_mm ps" "arg_base_mm ps"]
  show "convert_3d K geom ws ps = Inl NoPrintableGeometry"
    by (simp add: convert_3d_no_mesh)
next
  assume "convert_2d K parsed ps = Some (Inr (geom, ws))"
  then show "convert_svg_to_stl K parsed ps = Some (convert_3d K geom ws ps)"
    by (simp add: convert_svg_to_stl_def)
qed

theorem mesh_building_witness:
  "extrude_regions (rect_kernel False) (map Polygon [bowtie30, square30, Poly [] []]) (22 / 10) 7
     = extrude_regions (rect_kernel False) [Polygon square30] (22 / 10) 7
   \<and> (\<exists>e. convert_3d (rect_kernel False) (MultiPolygon [square30, triangle30]) [] default_params
             = Inl (ExtrudeError e))
   \<and> convert_3d (rect_kernel False) (MultiPolygon [bowtie30, Poly [] []]) [] default_params
       = Inl NoPrintableGeometry
   \<and> convert_svg_to_stl (rect_kernel False) (Inr square_doc) default_params
       = Some (convert_3d (rect_kernel False) (MultiPolygon [square30]) [] default_params)"
proof -
  have f: "filter (\<lambda>p. \<not> (is_empty p \<or> geom_area p \<le> 0)) (map Polygon [bowtie30, square30, Poly [] []])
           = [Polygon square30]"
    by code_simp
  have r: "\<exists>p \<in> set (regions_of (MultiPolygon [square30, triangle30])).
             \<not> (is_empty p \<or> geom_area p \<le> 0)
             \<and> (\<exists>e. k_extrude_polygon (rect_kernel False) p (arg_relief_mm default_params) = Inl e)"
  proof (rule bexI [of _ "Polygon triangle30"])
    have "k_extrude_polygon (rect_kernel False) (Polygon triangle30) (arg_relief_mm default_params)
          = Inl ''outside the rectangle kernel''"
      by code_simp
    moreover have "\<not> (is_empty (Polygon triangle30) \<or> geom_area (Polygon triangle30) \<le> 0)"
      by code_simp
    ultimately show "\<not> (is_empty (Polygon triangle30) \<or> geom_area (Polygon triangle30) \<le> 0)
             \<and> (\<exists>e. k_extrude_polygon (rect_kernel False) (Polygon triangle30)
                        (arg_relief_mm default_params) = Inl e)"
      by simp
    show "Polygon triangle30 \<in> set (regions_of (MultiPolygon [square30, triangle30]))"
      by (simp add: regions_of_def)
  qed
  have n: "\<forall>p \<in> set (regions_of (MultiPolygon [bowtie30, Poly [] []])).
             is_empty p \<or> geom_area p \<le> 0"
    by code_simp
  from mesh_building [of "rect_kernel False" "map Polygon [bowtie30, square30, Poly [] []]"
      "22 / 10" 7 "MultiPolygon [square30, triangle30]" default_params "[]"]
    mesh_building [of "rect_kernel False" "[]" 0 0 "MultiPolygon [bowtie30, Poly [] []]"
      default_params "[]"]
    mesh_building [of "rect_kernel False" "[]" 0 0 "MultiPolygon [square30]"
      default_params "[]" "Inr square_doc"]
    f r n square_2d
  show ?thesis by simp
qed

lemma normalize_mode_simps:
  "normalize_mode None = ''raised'' \<and> normalize_mode (Some []) = ''raised''
   \<and> (m \<noteq> [] \<longrightarrow> normalize_mode (Some m) = lower m)"
  by (simp add: normalize_mode_def lower_def lower_char_def)

lemma convert_3d_mode:
  assumes "extrude_regions K (regions_of geom) (arg_relief_mm ps) (arg_base_mm ps) = Inr ms"
    and "ms \<noteq> []"
  shows "(normalize_mode (arg_mode ps) \<notin> {''raised'', ''engraved''}
            \<longrightarrow> convert_3d K geom ws ps = Inl ModeError)
       \<and> (normalize_mode (arg_mode ps) \<in> {''raised'', ''engraved''}
            \<longrightarrow> convert_3d K geom ws ps \<noteq> Inl ModeError
              \<and> (\<forall>stamp r. convert_3d K geom ws ps = Inr (stamp, r)
                    \<longrightarrow> mode r = normalize_mode (arg_mode ps)))"
proof (intro conjI impI)
  assume "normalize_mode (arg_mode ps) \<notin> {''raised'', ''engraved''}"
  with assms show "convert_3d K geom ws ps = Inl ModeError"
    by (simp add: convert_3d_def Let_def bind_exn_def)
next
  assume v: "normalize_mode (arg_mode ps) \<in> {''raised'', ''engraved''}"
  have ne: "MeshEmpty \<noteq> ModeError" by (simp add: MeshEmpty_def ModeError_def)
  from v assms ne show "convert_3d K geom ws ps \<noteq> Inl ModeError"
    by (auto simp: convert_3d_def Let_def bind_exn_def split: prod.splits if_splits)
  from v assms show "\<forall>stamp r. convert_3d K geom ws ps = Inr (stamp, r)
                    \<longrightarrow> mode r = normalize_mode (arg_mode ps)"
    by (auto simp: convert_3d_def Let_def bind_exn_def split: prod.splits if_splits)
qed

text \<open>
  C10.  The mode \<open>None\<close> and the empty mode stand for \<open>raised\<close>, any other mode is
  lowered.  The planar part does not look at the mode, and its error is the error of the
  conversion whatever the mode is; so is an error of the extrusion loop and the error of
  an empty relief.  Only when the loop has returned at least one mesh is the mode tested:
  a mode that is then neither \<open>raised\<close> nor \<open>engraved\<close> gives the mode error, and a
  mode that is one of them does not, and is the mode of the report.
\<close>

theorem mode_validation:
  "normalize_mode None = ''raised'' \<and> normalize_mode (Some []) = ''raised''
   \<and> (m \<noteq> [] \<longrightarrow> normalize_mode (Some m) = lower m)
   \<and> convert_2d K parsed (ps\<lparr>arg_mode := m'\<rparr>) = convert_2d K parsed ps
   \<and> (convert_2d K parsed ps = Some (Inl e) \<longrightarrow> convert_svg_to_stl K parsed ps = Some (Inl e))
   \<and> (convert_2d K parsed ps = Some (Inr (geom, ws)) \<longrightarrow>
        (\<forall>x. extrude_regions K (regions_of geom) (arg_relief_mm ps) (arg_base_mm ps) = Inl x
              \<longrightarrow> convert_svg_to_stl K parsed ps = Some (Inl x))
      \<and> (extrude_regions K (regions_of geom) (arg_relief_mm ps) (arg_base_mm ps) = Inr []
              \<longrightarrow> convert_svg_to_stl K parsed ps = Some (Inl NoPrintableGeometry))
      \<and> (\<forall>ms. extrude_regions K (regions_of geom) (arg_relief_mm ps) (arg_base_mm ps) = Inr ms
                \<and> ms \<noteq> [] \<longrightarrow>
             (normalize_mode (arg_mode ps) \<notin> {''raised'', ''engraved''}
                \<longrightarrow> convert_svg_to_stl K parsed ps = Some (Inl ModeError))
           \<and> (normalize_mode (arg_mode ps) \<in> {''raised'', ''engraved''}
                \<longrightarrow> convert_svg_to_stl K parsed ps \<noteq> Some (Inl ModeError)
                  \<and> (\<forall>stamp r. convert_svg_to_stl K parsed ps = Some (Inr (stamp, r))
                        \<longrightarrow> mode r = normalize_mode (arg_mode ps)))))"
proof -
  have a: "convert_2d K parsed (ps\<lparr>arg_mode := m'\<rparr>) = convert_2d K parsed ps"
    by (simp add: convert_2d_def split: option.splits sum.splits)
  have b: "convert_2d K parsed ps = Some (Inl e) \<longrightarrow> convert_svg_to_stl K parsed ps = Some (Inl e)"
    by (simp add: convert_svg_to_stl_def)
  have c: "convert_2d K parsed ps = Some (Inr (geom, ws)) \<Longrightarrow>
           convert_svg_to_stl K parsed ps = Some (convert_3d K geom ws ps)"
    by (simp add: convert_svg_to_stl_def)
  have d: "convert_2d K parsed ps = Some (Inr (geom, ws)) \<longrightarrow>
        (\<forall>x. extrude_regions K (regions_of geom) (arg_relief_mm ps) (arg_base_mm ps) = Inl x
              \<longrightarrow> convert_svg_to_stl K parsed ps = Some (Inl x))
      \<and> (extrude_regions K (regions_of geom) (arg_relief_mm ps) (arg_base_mm ps) = Inr []
              \<longrightarrow> convert_svg_to_stl K parsed ps = Some (Inl NoPrintableGeometry))
      \<and> (\<forall>ms. extrude_regions K (regions_of geom) (arg_relief_mm ps) (arg_base_mm ps) = Inr ms
                \<and> ms \<noteq> [] \<longrightarrow>
             (normalize_mode (arg_mode ps) \<notin> {''raised'', ''engraved''}
                \<longrightarrow> convert_svg_to_stl K parsed ps = Some (Inl ModeError))
           \<and> (normalize_mode (arg_mode ps) \<in> {''raised'', ''engraved''}
                \<longrightarrow> convert_svg_to_stl K parsed ps \<noteq> Some (Inl ModeError)
                  \<and> (\<forall>stamp r. convert_svg_to_stl K parsed ps = Some (Inr (stamp, r))
                        \<longrightarrow> mode r = normalize_mode (arg_mode ps))))"
  proof
    assume h: "convert_2d K parsed ps = Some (Inr (geom, ws))"
    have mode_part: "(normalize_mode (arg_mode ps) \<notin> {''raised'', ''engraved''}
                \<longrightarrow> convert_svg_to_stl K parsed ps = Some (Inl ModeError))
           \<and> (normalize_mode (arg_mode ps) \<in> {''raised'', ''engraved''}
                \<longrightarrow> convert_svg_to_stl K parsed ps \<noteq> Some (Inl ModeError)
                  \<and> (\<forall>stamp r. convert_svg_to_stl K parsed ps = Some (Inr (stamp, r))
                        \<longrightarrow> mode r = normalize_mode (arg_mode ps)))"
      if "extrude_regions K (regions_of geom) (arg_relief_mm ps) (arg_base_mm ps) = Inr ms
          \<and> ms \<noteq> []" for ms
    proof -
      from that have e: "extrude_regions K (regions_of geom) (arg_relief_mm ps) (arg_base_mm ps) = Inr ms"
        and ne: "ms \<noteq> []" by simp_all
      from convert_3d_mode [OF e ne, of ws] show ?thesis
        unfolding c [OF h] by simp
    qed
    show "(\<forall>x. extrude_regions K (regions_of geom) (arg_relief_mm ps) (arg_base_mm ps) = Inl x
              \<longrightarrow> convert_svg_to_stl K parsed ps = Some (Inl x))
      \<and> (extrude_regions K (regions_of geom) (arg_relief_mm ps) (arg_base_mm ps) = Inr []
              \<longrightarrow> convert_svg_to_stl K parsed ps = Some (Inl NoPrintableGeometry))
      \<and> (\<forall>ms. extrude_regions K (regions_of geom) (arg_relief_mm ps) (arg_base_mm ps) = Inr ms
                \<and> ms \<noteq> [] \<longrightarrow>
             (normalize_mode (arg_mode ps) \<notin> {''raised'', ''engraved''}
                \<longrightarrow> convert_svg_to_stl K parsed ps = Some (Inl ModeError))
           \<and> (normalize_mode (arg_mode ps) \<in> {''raised'', ''engraved''}
                \<longrightarrow> convert_svg_to_stl K parsed ps \<noteq> Some (Inl ModeError)
                  \<and> (\<forall>stamp r. convert_svg_to_stl K parsed ps = Some (Inr (stamp, r))
                        \<longrightarrow> mode r = normalize_mode (arg_mode ps))))"
      using mode_part
      by (simp add: c [OF h] convert_3d_extrude_error convert_3d_no_mesh) blast
  qed
  from a b d normalize_mode_simps [of m] show ?thesis
    by (intro conjI) simp_all
qed

theorem mode_validation_witness:
  "normalize_mode (Some ''Engraved'') = ''engraved''
   \<and> convert_svg_to_stl (rect_kernel False) (Inl ''syntax error'')
        (default_params\<lparr>arg_mode := Some ''flat''\<rparr>)
       = Some (Inl (InvalidInput ''syntax error''))
   \<and> convert_svg_to_stl (rect_kernel False) (Inr triangle_doc)
        (default_params\<lparr>arg_mode := Some ''flat''\<rparr>)
       = Some (Inl (ExtrudeError ''outside the rectangle kernel''))
   \<and> convert_svg_to_stl (rect_kernel False) (Inr square_doc)
        (default_params\<lparr>arg_mode := Some ''flat''\<rparr>)
       = Some (Inl ModeError)
   \<and> convert_svg_to_stl (rect_kernel False) (Inr square_doc)
        (default_params\<lparr>arg_mode := Some ''Engraved''\<rparr>) \<noteq> Some (Inl ModeError)"
proof -
  let ?K = "rect_kernel False"
  let ?flat = "default_params\<lparr>arg_mode := Some ''flat''\<rparr>"
  let ?eng = "default_params\<lparr>arg_mode := Some ''Engraved''\<rparr>"
  have p: "convert_2d ?K (Inl ''syntax error'') ?flat = Some (Inl (InvalidInput ''syntax error''))"
    by (simp add: convert_2d_def extract_geometry_def)
  have t: "convert_2d ?K (Inr triangle_doc) ?flat = Some (Inr (MultiPolygon [triangle30], []))"
    by (simp only: convert_2d_mode triangle_2d)
  have te: "extrude_regions ?K (regions_of (MultiPolygon [triangle30])) (arg_relief_mm ?flat)
              (arg_base_mm ?flat) = Inl (ExtrudeError ''outside the rectangle kernel'')"
    by code_simp
  have s1: "convert_2d ?K (Inr square_doc) ?flat = Some (Inr (MultiPolygon [square30], []))"
    by (simp only: convert_2d_mode square_2d)
  have s2: "convert_2d ?K (Inr square_doc) ?eng = Some (Inr (MultiPolygon [square30], []))"
    by (simp only: convert_2d_mode square_2d)
  have se: "extrude_regions ?K (regions_of (MultiPolygon [square30])) (arg_relief_mm ?flat)
              (arg_base_mm ?flat) = Inr [[((- 15, - 15, 7), (15, 15, 46 / 5))]]"
    by code_simp
  have se2: "extrude_regions ?K (regions_of (MultiPolygon [square30])) (arg_relief_mm ?eng)
              (arg_base_mm ?eng) = Inr [[((- 15, - 15, 7), (15, 15, 46 / 5))]]"
    by code_simp
  have m1: "normalize_mode (arg_mode ?flat) \<notin> {''raised'', ''engraved''}"
    by code_simp
  have m2: "normalize_mode (arg_mode ?eng) \<in> {''raised'', ''engraved''}"
    by code_simp
  have m3: "lower ''Engraved'' = ''engraved''"
    by code_simp
  from mode_validation [where m = "''Engraved''" and K = ?K and parsed = "Inl ''syntax error''"
      and ps = ?flat and e = "InvalidInput ''syntax error''"] p m3
  have c1: "normalize_mode (Some ''Engraved'') = ''engraved''"
    and c2: "convert_svg_to_stl ?K (Inl ''syntax error'') ?flat
             = Some (Inl (InvalidInput ''syntax error''))"
    by simp_all
  from mode_validation [where K = ?K and parsed = "Inr triangle_doc" and ps = ?flat
      and geom = "MultiPolygon [triangle30]" and ws = "[]"] t te
  have c3: "convert_svg_to_stl ?K (Inr triangle_doc) ?flat
            = Some (Inl (ExtrudeError ''outside the rectangle kernel''))"
    by blast
  from mode_validation [where K = ?K and parsed = "Inr square_doc" and ps = ?flat
      and geom = "MultiPolygon [square30]" and ws = "[]"] s1 se m1
  have c4: "convert_svg_to_stl ?K (Inr square_doc) ?flat = Some (Inl ModeError)"
    by blast
  from mode_validation [where K = ?K and parsed = "Inr square_doc" and ps = ?eng
      and geom = "MultiPolygon [square30]" and ws = "[]"] s2 se2 m2
  have c5: "convert_svg_to_stl ?K (Inr square_doc) ?eng \<noteq> Some (Inl ModeError)"
    by blast
  from c1 c2 c3 c4 c5 show ?thesis by blast
qed

section \<open>Properties of the minimum-width enforcer\<close>

text \<open>
  C7.  The half width is \<open>max (min_line / 2) (1 / 100)\<close>, which is positive.  An open
  curve, both in the first loop of the entry point and in the enforcer, is buffered by
  exactly that distance with cap style 2 (flat) and join style 2 (mitre); a polygon or
  multipolygon is buffered by distance zero.  An exception of such a buffer leaves the
  enforcer as it is.  Otherwise the enforcer fails with the empty-geometry error if the
  cleaned union is empty, and else returns it, with the warning appended exactly when
  the half width exceeds one.
\<close>

theorem min_width_enforcer:
  "half_width ml = max (ml / 2) (1 / 100) \<and> 0 < half_width ml
   \<and> CAP_flat = 2 \<and> JOIN_mitre = 2
   \<and> convert_raw K ml (LineString pts # gs)
       = bind_exn (uncaught (k_buffer K (LineString pts) (half_width ml) 16 CAP_flat JOIN_mitre))
           (\<lambda>b. bind_exn (convert_raw K ml gs) (\<lambda>r. Inr (b # r)))
   \<and> buffered_polys K (LineString pts) (half_width ml)
       = bind_exn (uncaught (k_buffer K (LineString pts) (half_width ml) 16 CAP_flat JOIN_mitre))
           (\<lambda>b. Inr [b])
   \<and> buffered_polys K (Polygon p) (half_width ml)
       = bind_exn (uncaught (k_buffer K (Polygon p) 0 16 CAP_round JOIN_round)) (\<lambda>b. Inr [b])
   \<and> buffered_polys K (MultiPolygon qs) (half_width ml)
       = bind_exn (uncaught (k_buffer K (MultiPolygon qs) 0 16 CAP_round JOIN_round)) (\<lambda>b. Inr [b])
   \<and> (\<forall>e. buffered_polys K g (half_width ml) = Inl e \<longrightarrow> buffer_to_min_line K g ml ws = Inl e)
   \<and> (\<forall>polys. buffered_polys K g (half_width ml) = Inr polys \<longrightarrow>
         buffer_to_min_line K g ml ws
         = (if is_empty (cleaned_union K polys g) then Inl EmptyAfterBuffer
            else Inr (cleaned_union K polys g,
                      if half_width ml > 1 then ws @ [large_min_line_warning] else ws)))"
proof -
  have h: "half_width ml = max (ml / 2) (1 / 100)" "0 < half_width ml"
    by (simp_all add: half_width_def less_max_iff_disj)
  have c: "CAP_flat = 2" "JOIN_mitre = 2"
    by (simp_all add: CAP_flat_def JOIN_mitre_def)
  have r: "convert_raw K ml (LineString pts # gs)
       = bind_exn (uncaught (k_buffer K (LineString pts) (half_width ml) 16 CAP_flat JOIN_mitre))
           (\<lambda>b. bind_exn (convert_raw K ml gs) (\<lambda>r. Inr (b # r)))"
    by simp
  have b: "buffered_polys K (LineString pts) (half_width ml)
       = bind_exn (uncaught (k_buffer K (LineString pts) (half_width ml) 16 CAP_flat JOIN_mitre))
           (\<lambda>b. Inr [b])"
    "buffered_polys K (Polygon p) (half_width ml)
       = bind_exn (uncaught (k_buffer K (Polygon p) 0 16 CAP_round JOIN_round)) (\<lambda>b. Inr [b])"
    "buffered_polys K (MultiPolygon qs) (half_width ml)
       = bind_exn (uncaught (k_buffer K (MultiPolygon qs) 0 16 CAP_round JOIN_round)) (\<lambda>b. Inr [b])"
    by (simp_all add: buffered_polys_def)
  have e: "\<forall>e. buffered_polys K g (half_width ml) = Inl e \<longrightarrow> buffer_to_min_line K g ml ws = Inl e"
    by (simp add: buffer_to_min_line_def bind_exn_def Let_def)
  have o: "\<forall>polys. buffered_polys K g (half_width ml) = Inr polys \<longrightarrow>
         buffer_to_min_line K g ml ws
         = (if is_empty (cleaned_union K polys g) then Inl EmptyAfterBuffer
            else Inr (cleaned_union K polys g,
                      if half_width ml > 1 then ws @ [large_min_line_warning] else ws))"
    by (simp add: buffer_to_min_line_def bind_exn_def Let_def)
  from h c r b e o show ?thesis by (intro conjI)
qed


theorem min_width_enforcer_witness:
  "buffer_to_min_line (rect_kernel False) (LineString [(0, 0), (5, 0), (10, 0)]) (14 / 10) []
     = Inr (Polygon (Poly [(0, - (7 / 10)), (10, - (7 / 10)), (10, 7 / 10), (0, 7 / 10),
                           (0, - (7 / 10))] []), [])
   \<and> buffer_to_min_line (rect_kernel False) (MultiPolygon [square30]) 3 []
     = Inr (Polygon square30, [large_min_line_warning])
   \<and> buffer_to_min_line (rect_kernel False) (MultiPolygon []) 3 [] = Inl EmptyAfterBuffer
   \<and> buffer_to_min_line (rect_kernel False) (LineString []) 3 []
     = Inl (LibraryError ''outside the rectangle kernel'')"
proof -
  let ?K = "rect_kernel False"
  let ?l = "LineString [(0, 0), (5, 0), (10, 0)]"
  let ?band = "Polygon (Poly [(0, - (7 / 10)), (10, - (7 / 10)), (10, 7 / 10), (0, 7 / 10),
                           (0, - (7 / 10))] [])"
  have b1: "buffered_polys ?K ?l (half_width (14 / 10)) = Inr [?band]"
    by code_simp
  have u1: "cleaned_union ?K [?band] ?l = ?band"
    by code_simp
  have e1: "\<not> is_empty ?band" "\<not> half_width (14 / 10) > 1"
    by code_simp+
  have b2: "buffered_polys ?K (MultiPolygon [square30]) (half_width 3) = Inr [Polygon square30]"
    by code_simp
  have u2: "cleaned_union ?K [Polygon square30] (MultiPolygon [square30]) = Polygon square30"
    by code_simp
  have e2: "\<not> is_empty (Polygon square30)" "half_width 3 > 1"
    by code_simp+
  have b3: "buffered_polys ?K (MultiPolygon []) (half_width 3) = Inr [GeometryCollection []]"
    by code_simp
  have u3: "cleaned_union ?K [GeometryCollection []] (MultiPolygon []) = GeometryCollection []"
    by code_simp
  have b4: "buffered_polys ?K (LineString []) (half_width 3)
            = Inl (LibraryError ''outside the rectangle kernel'')"
    by code_simp
  from min_width_enforcer [of "14 / 10" ?K "[]" "[]" "Poly [] []" "[]" ?l "[]"] b1 u1 e1
  have c1: "buffer_to_min_line ?K ?l (14 / 10) [] = Inr (?band, [])"
    by simp
  from min_width_enforcer [of 3 ?K "[]" "[]" "Poly [] []" "[]" "MultiPolygon [square30]" "[]"] b2 u2 e2
  have c2: "buffer_to_min_line ?K (MultiPolygon [square30]) 3 []
            = Inr (Polygon square30, [large_min_line_warning])"
    by simp
  from min_width_enforcer [of 3 ?K "[]" "[]" "Poly [] []" "[]" "MultiPolygon []" "[]"] b3 u3
  have c3: "buffer_to_min_line ?K (MultiPolygon []) 3 [] = Inl EmptyAfterBuffer"
    by simp
  from min_width_enforcer [of 3 ?K "[]" "[]" "Poly [] []" "[]" "LineString []" "[]"] b4
  have c4: "buffer_to_min_line ?K (LineString []) 3 []
            = Inl (LibraryError ''outside the rectangle kernel'')"
    by simp
  from c1 c2 c3 c4 show ?thesis by (intro conjI)
qed

section \<open>Properties of the request handler\<close>

lemma convert_3d_report:
  assumes "convert_3d K geom ws ps = Inr (stamp, r)"
  shows "size_mm r = arg_size_mm ps \<and> base_mm r = arg_base_mm ps \<and> relief_mm r = arg_relief_mm ps"
  using assms
  by (auto simp: convert_3d_def Let_def bind_exn_def split: sum.splits if_splits prod.splits)

text \<open>
  C2, as amended.  The bounds are enforced by the request handler: a request with a size
  outside 25, 30 and 40, a base height outside [2, 20], a relief height outside
  [0.6, 6] or a line width outside [0.4, 4] is answered with the framework's validation
  error or with the error of the size test, whatever the kernel and the file are, so the
  pipeline is not run.  The entry point itself has no such test: a conversion that
  returns reports the size and the heights it was given.
\<close>

theorem bounds_enforced_by_handler:
  "(\<not> (q_size_mm req \<in> {25, 30, 40}
        \<and> 2 \<le> q_base_mm req \<and> q_base_mm req \<le> 20
        \<and> 6 / 10 \<le> q_relief_mm req \<and> q_relief_mm req \<le> 6
        \<and> 4 / 10 \<le> q_min_line_mm req \<and> q_min_line_mm req \<le> 4)
     \<longrightarrow> generate K req = Some (Inl RequestValidationError)
       \<or> generate K req = Some (Inl (HTTPException 400 ''Invalid size. Allowed sizes: 25, 30, 40 mm.'')))
   \<and> (\<forall>stamp r. convert_svg_to_stl K parsed ps = Some (Inr (stamp, r))
         \<longrightarrow> size_mm r = arg_size_mm ps \<and> base_mm r = arg_base_mm ps
           \<and> relief_mm r = arg_relief_mm ps)"
proof (rule conjI)
  show "\<not> (q_size_mm req \<in> {25, 30, 40}
        \<and> 2 \<le> q_base_mm req \<and> q_base_mm req \<le> 20
        \<and> 6 / 10 \<le> q_relief_mm req \<and> q_relief_mm req \<le> 6
        \<and> 4 / 10 \<le> q_min_line_mm req \<and> q_min_line_mm req \<le> 4)
     \<longrightarrow> generate K req = Some (Inl RequestValidationError)
       \<or> generate K req = Some (Inl (HTTPException 400 ''Invalid size. Allowed sizes: 25, 30, 40 mm.''))"
  proof
    assume "\<not> (q_size_mm req \<in> {25, 30, 40}
        \<and> 2 \<le> q_base_mm req \<and> q_base_mm req \<le> 20
        \<and> 6 / 10 \<le> q_relief_mm req \<and> q_relief_mm req \<le> 6
        \<and> 4 / 10 \<le> q_min_line_mm req \<and> q_min_line_mm req \<le> 4)"
    then have "\<not> query_valid req \<or> q_size_mm req \<notin> ALLOWED_SIZES"
      by (auto simp: query_valid_def ALLOWED_SIZES_def)
    then show "generate K req = Some (Inl RequestValidationError)
       \<or> generate K req = Some (Inl (HTTPException 400 ''Invalid size. Allowed sizes: 25, 30, 40 mm.''))"
      by (auto simp: generate_def)
  qed
  show "\<forall>stamp r. convert_svg_to_stl K parsed ps = Some (Inr (stamp, r))
         \<longrightarrow> size_mm r = arg_size_mm ps \<and> base_mm r = arg_base_mm ps
           \<and> relief_mm r = arg_relief_mm ps"
  proof (intro allI impI)
    fix stamp r
    assume "convert_svg_to_stl K parsed ps = Some (Inr (stamp, r))"
    then obtain geom ws where "convert_3d K geom ws ps = Inr (stamp, r)"
      by (auto simp: convert_svg_to_stl_def split: option.splits sum.splits)
    then show "size_mm r = arg_size_mm ps \<and> base_mm r = arg_base_mm ps
           \<and> relief_mm r = arg_relief_mm ps"
      by (rule convert_3d_report)
  qed
qed

theorem bounds_enforced_by_handler_witness:
  "generate (rect_kernel False)
     \<lparr>q_size_mm = 35, q_mode = ''raised'', q_base_mm = 7, q_relief_mm = 22 / 10,
      q_min_line_mm = 14 / 10, q_filename = ''stamp.svg'', q_file_size = 120,
      q_file_parsed = Inr square_doc\<rparr>
     = Some (Inl (HTTPException 400 ''Invalid size. Allowed sizes: 25, 30, 40 mm.''))
   \<and> generate (rect_kernel False)
     \<lparr>q_size_mm = 30, q_mode = ''raised'', q_base_mm = 1, q_relief_mm = 22 / 10,
      q_min_line_mm = 14 / 10, q_filename = ''stamp.svg'', q_file_size = 120,
      q_file_parsed = Inr square_doc\<rparr>
     = Some (Inl RequestValidationError)
   \<and> (\<exists>stamp r. convert_svg_to_stl (rect_kernel False) (Inr square_doc) default_params
                   = Some (Inr (stamp, r)) \<and> size_mm r = 30 \<and> base_mm r = 7)"
proof -
  let ?r1 = "\<lparr>q_size_mm = 35, q_mode = ''raised'', q_base_mm = 7, q_relief_mm = 22 / 10,
      q_min_line_mm = 14 / 10, q_filename = ''stamp.svg'', q_file_size = 120,
      q_file_parsed = Inr square_doc\<rparr>"
  let ?r2 = "\<lparr>q_size_mm = 30, q_mode = ''raised'', q_base_mm = 1, q_relief_mm = 22 / 10,
      q_min_line_mm = 14 / 10, q_filename = ''stamp.svg'', q_file_size = 120,
      q_file_parsed = Inr square_doc\<rparr>"
  have v1: "query_valid ?r1" by (simp add: query_valid_def)
  have v2: "\<not> query_valid ?r2" by (simp add: query_valid_def)
  have g1: "generate (rect_kernel False) ?r1 \<noteq> Some (Inl RequestValidationError)"
    using v1 by (simp add: generate_def ALLOWED_SIZES_def)
  have g2: "generate (rect_kernel False) ?r2
            \<noteq> Some (Inl (HTTPException 400 ''Invalid size. Allowed sizes: 25, 30, 40 mm.''))"
    using v2 by (simp add: generate_def)
  from bounds_enforced_by_handler [of ?r1 "rect_kernel False" "Inr square_doc" default_params] g1
  have c1: "generate (rect_kernel False) ?r1
     = Some (Inl (HTTPException 400 ''Invalid size. Allowed sizes: 25, 30, 40 mm.''))"
    by simp
  from bounds_enforced_by_handler [of ?r2 "rect_kernel False" "Inr square_doc" default_params] g2
  have c2: "generate (rect_kernel False) ?r2 = Some (Inl RequestValidationError)"
    by simp
  have "convert_svg_to_stl (rect_kernel False) (Inr square_doc) default_params
        = Some (convert_3d (rect_kernel False) (MultiPolygon [square30]) [] default_params)"
    by (simp add: convert_svg_to_stl_def square_2d)
  moreover have "convert_3d (rect_kernel False) (MultiPolygon [square30]) [] default_params
        = Inr ([((- 15, - 15, 0), (15, 15, 7)), ((- 15, - 15, 7), (15, 15, 46 / 5))],
               \<lparr>size_mm = 30, base_mm = 7, relief_mm = 22 / 10, mode = ''raised'',
                bbox_mm = (- 15, - 15, 15, 15), approx_area_mm2 = 900,
                warnings = [scad_missing_raised_warning]\<rparr>)"
    by code_simp
  ultimately obtain stamp r where
    v: "convert_svg_to_stl (rect_kernel False) (Inr square_doc) default_params = Some (Inr (stamp, r))"
    by auto
  from bounds_enforced_by_handler [of ?r2 "rect_kernel False" "Inr square_doc" default_params] v
  have "size_mm r = 30 \<and> base_mm r = 7"
    by (simp add: default_params_def)
  with v have c3: "\<exists>stamp r. convert_svg_to_stl (rect_kernel False) (Inr square_doc) default_params
                   = Some (Inr (stamp, r)) \<and> size_mm r = 30 \<and> base_mm r = 7"
    by blast
  from c1 c2 c3 show ?thesis by (intro conjI)
qed

text \<open>
  C2 as stated fails: called directly with a size of 35, a base of 1, a relief of 10 and a
  line width of 0.1, all outside the bounds, the entry point converts the square.
\<close>

theorem out_of_range_accepted:
  "convert_svg_to_stl (rect_kernel False) (Inr square_doc)
     \<lparr>arg_size_mm = 35, arg_mode = Some ''raised'', arg_base_mm = 1, arg_relief_mm = 10,
      arg_min_line_mm = 1 / 10\<rparr>
   = Some (Inr ([((- (35 / 2), - (35 / 2), 0), (35 / 2, 35 / 2, 1)),
                 ((- (35 / 2), - (35 / 2), 1), (35 / 2, 35 / 2, 11))],
                \<lparr>size_mm = 35, base_mm = 1, relief_mm = 10, mode = ''raised'',
                 bbox_mm = (- (35 / 2), - (35 / 2), 35 / 2, 35 / 2),
                 approx_area_mm2 = 1225,
                 warnings = [scad_missing_raised_warning]\<rparr>))"
  by code_simp

section \<open>Properties of the normalizer\<close>









section \<open>Properties of the engraved mode\<close>




end
